theory Spec2Isabelle
  imports Complex_Main "HOL-Library.List_Lexorder" "HOL-Library.Char_ord" "HOL-Library.AList"
begin

section \<open>Data model (src/models/signifier.py)\<close>

text \<open>JSON values, and Python dictionaries with string keys, as \<open>json.loads\<close> returns them.\<close>

datatype json = JNull | JBool bool | JInt int | JFloat real | JStr string
  | JArr "json list" | JObj "(string \<times> json) list"

type_synonym py_dict = "(string \<times> json) list"

text \<open>
  Python values that can stand in a field typed \<open>Any\<close> (a condition's \<open>value\<close>, a context
  feature): \<open>None\<close>, bool, int, float (as a real), str, and a list or dictionary
  (\<open>PyCompound\<close>). \<open>bool\<close> is a subclass of \<open>int\<close> in Python, so
  \<open>isinstance(v, (int, float))\<close> holds for bool, int and float.
\<close>

datatype pyval = PyNone | PyBool bool | PyInt int | PyFloat real | PyStr string
  | PyCompound json

definition pyval_of_json :: "json \<Rightarrow> pyval" where
  "pyval_of_json j = (case j of JNull \<Rightarrow> PyNone | JBool b \<Rightarrow> PyBool b | JInt i \<Rightarrow> PyInt i
                              | JFloat x \<Rightarrow> PyFloat x | JStr s \<Rightarrow> PyStr s | _ \<Rightarrow> PyCompound j)"

record ValueCondition =
  operator :: string
  vc_value :: pyval
  vc_datatype :: "string option"

record StructuredCondition =
  artifact :: string
  property_affordance :: string
  value_conditions :: "ValueCondition list"

text \<open>\<open>ValueCondition.validate_operator\<close>: the fixed operator set.\<close>

definition allowed_operators :: "string list" where
  "allowed_operators =
     [''greaterThan'', ''lessThan'', ''greaterEqual'', ''lessEqual'', ''equals'', ''notEquals'']"

text \<open>
  Functions of the Python runtime that the code calls and that are not part of the repository:
  \<open>float(s)\<close> on a string (\<open>None\<close>: it raises \<open>ValueError\<close>), \<open>str(x)\<close> on a float and on a
  list or dictionary, \<open>json.loads\<close> (\<open>None\<close>: it raises \<open>JSONDecodeError\<close>), \<open>json.dumps\<close>, and
  the comparisons \<open><\<close>, \<open><=\<close> (\<open>None\<close>: \<open>TypeError\<close>) and \<open>==\<close> between two lists or
  dictionaries, and \<open>Path.glob(pattern)\<close> on a directory: \<open>path_glob pattern names\<close> gives the
  file names that the pattern selects in a directory holding the files \<open>names\<close> (\<open>None\<close>: the
  glob raises, as it does for a pattern it does not support). They are parameters of the
  model.
\<close>

record py_runtime =
  float_of_str :: "string \<Rightarrow> real option"
  str_of_float :: "real \<Rightarrow> string"
  str_of_json :: "json \<Rightarrow> string"
  json_loads :: "string \<Rightarrow> json option"
  json_dumps :: "json \<Rightarrow> string"
  lt_compound :: "json \<Rightarrow> json \<Rightarrow> bool option"
  le_compound :: "json \<Rightarrow> json \<Rightarrow> bool option"
  eq_compound :: "json \<Rightarrow> json \<Rightarrow> bool"
  path_glob :: "string \<Rightarrow> string list \<Rightarrow> string list option"

text \<open>
  The failures of the code. Every one is a Python \<open>ValueError\<close> in the source; the constructor
  names the message: \<open>AlreadyExists\<close> (``already exists. Use update instead.''), \<open>NotFound\<close>
  (``not found. Use create instead.''), \<open>InvalidInput\<close> (``intent_query cannot be empty''),
  \<open>InvalidRDF\<close> (``Invalid RDF signifier''), \<open>InvalidRDFData\<close> (``Invalid RDF data'', from
  \<open>store_rdf_graph\<close>), \<open>UnknownVersion\<close> (``Matcher version ... not registered''). \<open>ParserError\<close>
  is an exception of the RDF library that the code does not catch.
\<close>

datatype error = AlreadyExists | NotFound | InvalidInput | InvalidRDF | InvalidRDFData
  | UnknownVersion | ParserError

text \<open>
  A glob for the example runtime: \<open>*\<close> stands for any run of characters and every other
  character for itself. The patterns of the examples contain no \<open>?\<close>, \<open>[\<close> or \<open>/\<close>, for which
  this is what \<open>Path.glob\<close> selects.
\<close>

fun star_match :: "string \<Rightarrow> string \<Rightarrow> bool" where
  "star_match [] name = (name = [])"
| "star_match (p # ps) [] = (p = CHR ''*'' \<and> star_match ps [])"
| "star_match (p # ps) (c # cs) =
     (if p = CHR ''*'' then star_match ps (c # cs) \<or> star_match (p # ps) cs
      else p = c \<and> star_match ps cs)"

text \<open>A runtime table with the values of the runtime functions on the inputs of the examples:
  \<open>float('3.5') = 3.5\<close>, \<open>str(3.5) = '3.5'\<close>,
  \<open>str({'verb': 'increase'}) = "{'verb': 'increase'}"\<close>,
  \<open>str({'intent': 'raise blinds'}) = "{'intent': 'raise blinds'}"\<close>, \<open>json.loads\<close> of \<open>raise_blinds_json\<close>
  is \<open>{'intent': 'raise blinds'}\<close> and \<open>json.dumps\<close> is its inverse there; \<open>float('abc')\<close> and
  \<open>json.loads('not json')\<close> raise. Only these entries are used.\<close>

definition raise_blinds_json :: string where
  "raise_blinds_json = ''{'' @ [CHR 0x22] @ ''intent'' @ [CHR 0x22] @ '': ''
                       @ [CHR 0x22] @ ''raise blinds'' @ [CHR 0x22] @ ''}''"

definition sample_runtime :: py_runtime where
  "sample_runtime =
     \<lparr> float_of_str = (\<lambda>s. if s = ''3.5'' then Some (7 / 2) else None),
       str_of_float = (\<lambda>x. if x = 7 / 2 then ''3.5'' else ''?''),
       str_of_json = (\<lambda>d. if d = JObj [(''verb'', JStr ''increase'')]
                           then ''{'' @ [CHR 0x27] @ ''verb'' @ [CHR 0x27] @ '': ''
                                @ [CHR 0x27] @ ''increase'' @ [CHR 0x27] @ ''}''
                           else if d = JObj [(''intent'', JStr ''raise blinds'')]
                           then ''{'' @ [CHR 0x27] @ ''intent'' @ [CHR 0x27] @ '': ''
                                @ [CHR 0x27] @ ''raise blinds'' @ [CHR 0x27] @ ''}''
                           else ''{}''),
       json_loads = (\<lambda>s. if s = raise_blinds_json
                          then Some (JObj [(''intent'', JStr ''raise blinds'')])
                          else None),
       json_dumps = (\<lambda>j. if j = JObj [(''intent'', JStr ''raise blinds'')]
                          then raise_blinds_json else ''null''),
       lt_compound = (\<lambda>x y. None),
       le_compound = (\<lambda>x y. None),
       eq_compound = (\<lambda>x y. x = y),
       path_glob = (\<lambda>pattern names. Some (filter (star_match pattern) names)) \<rparr>"

subsection \<open>String forms of Python values\<close>

fun digit_char :: "nat \<Rightarrow> char" where
  "digit_char n = char_of (48 + n mod 10)"

fun str_of_nat_aux :: "nat \<Rightarrow> nat \<Rightarrow> string \<Rightarrow> string" where
  "str_of_nat_aux 0 n acc = acc"
| "str_of_nat_aux (Suc fuel) n acc =
     (if n < 10 then digit_char n # acc
      else str_of_nat_aux fuel (n div 10) (digit_char n # acc))"

text \<open>Decimal digits of a natural number (\<open>n\<close> has at most \<open>n + 1\<close> digits).\<close>

definition str_of_nat :: "nat \<Rightarrow> string" where
  "str_of_nat n = str_of_nat_aux (Suc n) n []"

definition str_of_int :: "int \<Rightarrow> string" where
  "str_of_int i = (if i < 0 then CHR ''-'' # str_of_nat (nat (- i)) else str_of_nat (nat i))"

text \<open>\<open>str(x)\<close>\<close>

definition py_str :: "py_runtime \<Rightarrow> pyval \<Rightarrow> string" where
  "py_str rt v = (case v of PyNone \<Rightarrow> ''None'' | PyBool b \<Rightarrow> (if b then ''True'' else ''False'')
                          | PyInt i \<Rightarrow> str_of_int i | PyFloat x \<Rightarrow> str_of_float rt x
                          | PyStr s \<Rightarrow> s | PyCompound j \<Rightarrow> str_of_json rt j)"

section \<open>RDF graphs and signifiers\<close>

text \<open>
  The RDF library is not part of the repository. A graph is the list of its triples (the
  order is the order in which the library enumerates them); a literal is given by its lexical
  form (plain or \<open>xsd:string\<close>). \<open>str(node)\<close> is the URI, the blank-node label or the lexical
  form, and a node is truthy when that string is not empty.
\<close>

datatype node = URIRef string | BNode string | Literal string

type_synonym triple = "node \<times> node \<times> node"
type_synonym graph = "triple list"

definition node_str :: "node \<Rightarrow> string" where
  "node_str n = (case n of URIRef u \<Rightarrow> u | BNode b \<Rightarrow> b | Literal l \<Rightarrow> l)"

definition node_truthy :: "node option \<Rightarrow> bool" where
  "node_truthy n = (case n of None \<Rightarrow> False | Some x \<Rightarrow> node_str x \<noteq> [])"

definition CASHMERE :: "string \<Rightarrow> node" where
  "CASHMERE name = URIRef (''https://aimas.cs.pub.ro/ont/cashmere#'' @ name)"

definition SH :: "string \<Rightarrow> node" where
  "SH name = URIRef (''http://www.w3.org/ns/shacl#'' @ name)"

definition RDF_type :: node where
  "RDF_type = URIRef ''http://www.w3.org/1999/02/22-rdf-syntax-ns#type''"

text \<open>\<open>graph.subjects(p, o)\<close>, \<open>graph.objects(s, p)\<close>, \<open>graph.value(s, p)\<close> and
  \<open>graph.triples((s, None, None))\<close>.\<close>

definition subjects :: "graph \<Rightarrow> node \<Rightarrow> node \<Rightarrow> node list" where
  "subjects g p ob = map fst (filter (\<lambda>t. fst (snd t) = p \<and> snd (snd t) = ob) g)"

definition objects :: "graph \<Rightarrow> node \<Rightarrow> node \<Rightarrow> node list" where
  "objects g s p = map (\<lambda>t. snd (snd t)) (filter (\<lambda>t. fst t = s \<and> fst (snd t) = p) g)"

definition graph_value :: "graph \<Rightarrow> node \<Rightarrow> node \<Rightarrow> node option" where
  "graph_value g s p = (case objects g s p of [] \<Rightarrow> None | x # _ \<Rightarrow> Some x)"

definition triples_of :: "graph \<Rightarrow> node \<Rightarrow> triple list" where
  "triples_of g s = filter (\<lambda>t. fst t = s) g"

text \<open>
  An RDF text handed to the registry by a caller, as far as the code observes it: whether it
  is the empty string, whether it contains \<open>@prefix\<close>, the graph the library parses it to
  (\<open>None\<close>: the parser raises), and the graph the library parses \<open>_preprocess_rdf(text)\<close> to.
\<close>

record rdf_text =
  text_nonempty :: bool
  has_prefix_decl :: bool
  parses_to :: "graph option"
  preprocessed_parses_to :: "graph option"

text \<open>The \<open>shacl_shapes\<close> text of a signifier: whether it is the empty string, and the graph
  it parses to.\<close>

record shapes_text =
  shapes_nonempty :: bool
  shapes_graph :: "graph option"

text \<open>Truthiness of an optional text (\<open>if rdf_data:\<close>, \<open>if signifier.context.shacl_shapes:\<close>):
  \<open>None\<close> and the empty string are falsy.\<close>

definition rdf_truthy :: "rdf_text option \<Rightarrow> bool" where
  "rdf_truthy t = (case t of None \<Rightarrow> False | Some x \<Rightarrow> text_nonempty x)"

definition shapes_truthy :: "shapes_text option \<Rightarrow> bool" where
  "shapes_truthy t = (case t of None \<Rightarrow> False | Some x \<Rightarrow> shapes_nonempty x)"

subsection \<open>The signifier (src/models/signifier.py)\<close>

datatype SignifierStatus = ACTIVE | DEPRECATED

text \<open>\<open>Provenance\<close> without its \<open>created_at\<close> timestamp.\<close>

record Provenance =
  created_by :: string
  source :: string

record IntentionDescription =
  nl_text :: string
  structured :: "py_dict option"

record IntentContext =
  structured_conditions :: "StructuredCondition list"
  shacl_shapes :: "shapes_text option"
  nl_description :: "string option"

record Signifier =
  signifier_id :: string
  version :: int
  status :: SignifierStatus
  intent :: IntentionDescription
  intent_context :: IntentContext
  affordance_uri :: string
  provenance :: Provenance
  indexes :: py_dict

text \<open>The field constraints that the model classes check when an object is built
  (\<open>min_length=1\<close>, \<open>ge=1\<close>, \<open>validate_operator\<close>).\<close>

definition valid_value_condition :: "ValueCondition \<Rightarrow> bool" where
  "valid_value_condition vc \<longleftrightarrow> operator vc \<in> set allowed_operators"

definition valid_structured_condition :: "StructuredCondition \<Rightarrow> bool" where
  "valid_structured_condition c \<longleftrightarrow>
     artifact c \<noteq> [] \<and> property_affordance c \<noteq> []
     \<and> list_all valid_value_condition (value_conditions c)"

definition valid_signifier :: "Signifier \<Rightarrow> bool" where
  "valid_signifier s \<longleftrightarrow>
     signifier_id s \<noteq> [] \<and> 1 \<le> version s \<and> nl_text (intent s) \<noteq> []
     \<and> list_all valid_structured_condition (structured_conditions (intent_context s))
     \<and> affordance_uri s \<noteq> [] \<and> created_by (provenance s) \<noteq> []"

text \<open>\<open>Signifier.get_property_keys\<close>\<close>

definition get_property_keys :: "Signifier \<Rightarrow> (string \<times> string) list" where
  "get_property_keys s =
     map (\<lambda>condition. (artifact condition, property_affordance condition))
         (structured_conditions (intent_context s))"

section \<open>Representation service (src/storage/representation.py)\<close>

text \<open>\<open>d.get(key, default)\<close> on a dictionary, and iteration over a JSON value: a list gives
  its elements, a string its characters, a dictionary its keys; \<open>null\<close>, a bool and a number
  are not iterable (\<open>None\<close>: \<open>TypeError\<close>).\<close>

definition dict_get :: "py_dict \<Rightarrow> string \<Rightarrow> json \<Rightarrow> json" where
  "dict_get d k dflt = (case map_of d k of None \<Rightarrow> dflt | Some v \<Rightarrow> v)"

definition py_iter :: "json \<Rightarrow> json list option" where
  "py_iter j = (case j of JArr xs \<Rightarrow> Some xs
                        | JStr s \<Rightarrow> Some (map (\<lambda>c. JStr [c]) s)
                        | JObj d \<Rightarrow> Some (map (\<lambda>kv. JStr (fst kv)) d)
                        | _ \<Rightarrow> None)"

text \<open>Running a fallible function over a list, stopping at the first failure.\<close>

fun map_option_all :: "('a \<Rightarrow> 'b option) \<Rightarrow> 'a list \<Rightarrow> 'b list option" where
  "map_option_all f [] = Some []"
| "map_option_all f (x # xs) =
     (case f x of None \<Rightarrow> None
      | Some y \<Rightarrow> (case map_option_all f xs of None \<Rightarrow> None | Some ys \<Rightarrow> Some (y # ys)))"

text \<open>
  One \<open>ValueCondition(...)\<close> of \<open>_parse_structured_condition\<close>. \<open>None\<close> stands for any
  exception: \<open>vc.get\<close> on a value that is not a dictionary, an operator that is not one of the
  allowed strings, a \<open>datatype\<close> that is neither absent, \<open>null\<close> nor a string.
\<close>

definition parse_value_condition :: "json \<Rightarrow> ValueCondition option" where
  "parse_value_condition vc =
     (case vc of
        JObj d \<Rightarrow>
          (case dict_get d ''operator'' (JStr ''equals'') of
             JStr op \<Rightarrow>
               if op \<in> set allowed_operators then
                 (case dict_get d ''datatype'' JNull of
                    JNull \<Rightarrow> Some \<lparr> operator = op,
                                     vc_value = pyval_of_json (dict_get d ''value'' JNull),
                                     vc_datatype = None \<rparr>
                  | JStr dt \<Rightarrow> Some \<lparr> operator = op,
                                       vc_value = pyval_of_json (dict_get d ''value'' JNull),
                                       vc_datatype = Some dt \<rparr>
                  | _ \<Rightarrow> None)
               else None
           | _ \<Rightarrow> None)
      | _ \<Rightarrow> None)"

definition parse_structured_condition :: "py_runtime \<Rightarrow> json \<Rightarrow> StructuredCondition option" where
  "parse_structured_condition rt condition_dict =
     (case condition_dict of
        JObj d \<Rightarrow>
          (case py_iter (dict_get d ''valueConditions'' (JArr [])) of
             None \<Rightarrow> None
           | Some vcs \<Rightarrow>
               (case map_option_all parse_value_condition vcs of
                  None \<Rightarrow> None
                | Some value_conditions' \<Rightarrow>
                    let a = py_str rt (pyval_of_json (dict_get d ''artifact'' (JStr [])));
                        p = py_str rt (pyval_of_json (dict_get d ''propertyAffordance'' (JStr [])))
                    in if a \<noteq> [] \<and> p \<noteq> []
                       then Some \<lparr> artifact = a, property_affordance = p,
                                   value_conditions = value_conditions' \<rparr>
                       else None))
      | _ \<Rightarrow> None)"

text \<open>\<open>_extract_shacl_shapes\<close>: the triples of every shape node and of its \<open>sh:property\<close>
  nodes, as a graph (a set: duplicates removed), serialised.\<close>

definition extract_shacl_shapes :: "graph \<Rightarrow> node list \<Rightarrow> shapes_text" where
  "extract_shacl_shapes g shape_nodes =
     \<lparr> shapes_nonempty = True,
       shapes_graph = Some (remdups (concat (map (\<lambda>shape_node.
           triples_of g shape_node
           @ concat (map (triples_of g) (objects g shape_node (SH ''property''))))
         shape_nodes))) \<rparr>"

text \<open>\<open>str(signifier_node).split("#")[-1]\<close>\<close>

definition after_last_hash :: "string \<Rightarrow> string" where
  "after_last_hash s = rev (takeWhile (\<lambda>c. c \<noteq> CHR ''#'') (rev s))"

text \<open>
  The context part of \<open>parse_rdf_signifier\<close>. \<open>None\<close> stands for an exception that reaches
  the outer handler; a \<open>JSONDecodeError\<close> of the context description is caught inside and
  leaves the structured conditions empty.
\<close>

definition parse_context :: "py_runtime \<Rightarrow> graph \<Rightarrow> node \<Rightarrow> IntentContext option" where
  "parse_context rt g signifier_node =
     (let context_node = graph_value g signifier_node (CASHMERE ''recommendsContext'');
          empty_context = \<lparr> structured_conditions = [], shacl_shapes = None,
                            nl_description = None \<rparr>
      in if node_truthy context_node then
           (let cn = the context_node;
                context_nl = graph_value g cn (CASHMERE ''hasStructuredDescription'');
                with_description =
                  (if node_truthy context_nl then
                     (let text = node_str (the context_nl);
                          c1 = empty_context \<lparr> nl_description := Some text \<rparr>
                      in case json_loads rt text of
                           None \<Rightarrow> Some c1
                         | Some (JObj context_dict) \<Rightarrow>
                             (case py_iter (dict_get context_dict ''conditions'' (JArr [])) of
                                None \<Rightarrow> None
                              | Some conditions \<Rightarrow>
                                  (case map_option_all (parse_structured_condition rt) conditions of
                                     None \<Rightarrow> None
                                   | Some cs \<Rightarrow> Some (c1 \<lparr> structured_conditions := cs \<rparr>)))
                         | Some _ \<Rightarrow> None)
                   else Some empty_context);
                shapes = objects g cn (CASHMERE ''hasShaclCondition'')
            in case with_description of
                 None \<Rightarrow> None
               | Some c2 \<Rightarrow>
                   if shapes \<noteq> []
                   then Some (c2 \<lparr> shacl_shapes := Some (extract_shacl_shapes g shapes) \<rparr>)
                   else Some c2)
         else Some empty_context)"

text \<open>\<open>parse_rdf_signifier\<close> on the parsed graph. Every exception inside the \<open>try\<close> block is
  turned into the \<open>ValueError\<close> ``Invalid RDF signifier''.\<close>

definition parse_graph :: "py_runtime \<Rightarrow> graph \<Rightarrow> error + Signifier" where
  "parse_graph rt g =
     (case subjects g RDF_type (CASHMERE ''Signifier'') of
        [] \<Rightarrow> Inl InvalidRDF
      | signifier_node # _ \<Rightarrow>
          let sid = after_last_hash (node_str signifier_node);
              affordance = graph_value g signifier_node (CASHMERE ''signifies'')
          in if \<not> node_truthy affordance then Inl InvalidRDF
             else
               let intent_node = graph_value g signifier_node (CASHMERE ''hasIntentionDescription'')
               in if \<not> node_truthy intent_node then Inl InvalidRDF
                  else
                    let intent_nl = graph_value g (the intent_node)
                                      (CASHMERE ''hasStructuredDescription'')
                    in if \<not> node_truthy intent_nl then Inl InvalidRDF
                       else
                         (case json_loads rt (node_str (the intent_nl)) of
                            Some (JObj intent_dict) \<Rightarrow>
                              (case dict_get intent_dict ''intent'' (JStr []) of
                                 JStr nl \<Rightarrow>
                                   if nl = [] then Inl InvalidRDF
                                   else
                                     (case parse_context rt g signifier_node of
                                        None \<Rightarrow> Inl InvalidRDF
                                      | Some ctx \<Rightarrow>
                                          if sid = [] then Inl InvalidRDF
                                          else Inr \<lparr> signifier_id = sid, version = 1,
                                                     status = ACTIVE,
                                                     intent = \<lparr> nl_text = nl,
                                                                structured = Some intent_dict \<rparr>,
                                                     intent_context = ctx,
                                                     affordance_uri = node_str (the affordance),
                                                     provenance = \<lparr> created_by = ''system'',
                                                                    source = ''rdf_import'' \<rparr>,
                                                     indexes = [] \<rparr>)
                               | _ \<Rightarrow> Inl InvalidRDF)
                          | _ \<Rightarrow> Inl InvalidRDF))"

text \<open>\<open>parse_rdf_signifier\<close>: a text without \<open>@prefix\<close> is preprocessed before it is parsed; a
  parser failure is an invalid RDF signifier too.\<close>

definition parse_rdf_signifier :: "py_runtime \<Rightarrow> rdf_text \<Rightarrow> error + Signifier" where
  "parse_rdf_signifier rt rdf_data =
     (case (if has_prefix_decl rdf_data then parses_to rdf_data
            else preprocessed_parses_to rdf_data) of
        None \<Rightarrow> Inl InvalidRDF
      | Some g \<Rightarrow> parse_graph rt g)"

text \<open>
  The graph that \<open>generate_rdf\<close> builds, with the default base URI. A \<open>shacl_shapes\<close> text
  that does not parse raises an exception of the RDF library.
\<close>

definition generate_rdf_graph :: "py_runtime \<Rightarrow> Signifier \<Rightarrow> error + graph" where
  "generate_rdf_graph rt s =
     (let base_uri = ''http://example.org/signifiers'';
          signifier_uri = URIRef (base_uri @ ''#'' @ signifier_id s);
          intent_node = URIRef (base_uri @ ''#'' @ signifier_id s @ ''-intent'');
          intent_json = json_dumps rt
            (case structured (intent s) of
               None \<Rightarrow> JObj [(''intent'', JStr (nl_text (intent s)))]
             | Some d \<Rightarrow> if d = [] then JObj [(''intent'', JStr (nl_text (intent s)))]
                         else JObj d);
          context_node = URIRef (base_uri @ ''#'' @ signifier_id s @ ''-context'');
          head =
            [(signifier_uri, RDF_type, CASHMERE ''Signifier''),
             (signifier_uri, CASHMERE ''signifies'', URIRef (affordance_uri s)),
             (signifier_uri, CASHMERE ''hasIntentionDescription'', intent_node),
             (intent_node, RDF_type, CASHMERE ''IntentionDescription''),
             (intent_node, CASHMERE ''hasStructuredDescription'', Literal intent_json),
             (signifier_uri, CASHMERE ''recommendsContext'', context_node),
             (context_node, RDF_type, CASHMERE ''IntentContext'')];
          description =
            (case nl_description (intent_context s) of
               None \<Rightarrow> []
             | Some d \<Rightarrow> if d \<noteq> []
                         then [(context_node, CASHMERE ''hasStructuredDescription'', Literal d)]
                         else [])
      in if shapes_truthy (shacl_shapes (intent_context s)) then
           (case shapes_graph (the (shacl_shapes (intent_context s))) of
              None \<Rightarrow> Inl ParserError
            | Some sg \<Rightarrow>
                Inr (remdups (head @ description @ concat (map (\<lambda>t.
                       t # (if (fst t, RDF_type, SH ''NodeShape'') \<in> set sg
                            then [(context_node, CASHMERE ''hasShaclCondition'', fst t)]
                            else [])) sg))))
         else Inr (remdups (head @ description)))"

text \<open>
  \<open>graph.serialize(format="turtle")\<close>: the Turtle text that the library writes for a graph. It
  is not empty and the library parses it back to the same graph; the other two fields are not
  read on the paths that take a serialised text.
\<close>

definition serialize_turtle :: "graph \<Rightarrow> rdf_text" where
  "serialize_turtle g = \<lparr> text_nonempty = True, has_prefix_decl = True, parses_to = Some g,
                          preprocessed_parses_to = Some g \<rparr>"

definition generate_rdf :: "py_runtime \<Rightarrow> Signifier \<Rightarrow> error + rdf_text" where
  "generate_rdf rt s =
     (case generate_rdf_graph rt s of Inl e \<Rightarrow> Inl e | Inr g \<Rightarrow> Inr (serialize_turtle g))"

text \<open>\<open>normalize_signifier\<close> is the identity (a placeholder in the source).\<close>

definition normalize_signifier :: "Signifier \<Rightarrow> Signifier" where
  "normalize_signifier s = s"

subsection \<open>The mandatory predicates named by the specification\<close>

text \<open>A predicate occurs in the graph; a node is typed as a signifier in the graph.\<close>

definition uses_predicate :: "graph \<Rightarrow> node \<Rightarrow> bool" where
  "uses_predicate g p = list_ex (\<lambda>t. fst (snd t) = p) g"

definition has_signifier_typing :: "graph \<Rightarrow> bool" where
  "has_signifier_typing g =
     list_ex (\<lambda>t. fst (snd t) = RDF_type \<and> snd (snd t) = CASHMERE ''Signifier'') g"

text \<open>The four predicates are present where the parser looks for them: some node is typed
  as a signifier, and the first such node has an affordance (\<open>cashmere:signifies\<close>) and an
  intention description, which has a structured description.\<close>

definition mandatory_present :: "graph \<Rightarrow> bool" where
  "mandatory_present g =
     (case subjects g RDF_type (CASHMERE ''Signifier'') of
        [] \<Rightarrow> False
      | n # _ \<Rightarrow>
          objects g n (CASHMERE ''signifies'') \<noteq> []
          \<and> (case objects g n (CASHMERE ''hasIntentionDescription'') of
                [] \<Rightarrow> False
              | i # _ \<Rightarrow> objects g i (CASHMERE ''hasStructuredDescription'') \<noteq> []))"

subsection \<open>Example graphs\<close>

definition raise_blinds_node :: node where
  "raise_blinds_node = URIRef ''http://example.org/signifiers#raise-blinds-signifier''"

text \<open>A signifier with typing, affordance and intention description, and no
  \<open>cashmere:recommendsContext\<close>.\<close>

definition graph_without_context :: graph where
  "graph_without_context =
     [(raise_blinds_node, RDF_type, CASHMERE ''Signifier''),
      (raise_blinds_node, CASHMERE ''signifies'', URIRef ''http://example.org/affordances/raise''),
      (raise_blinds_node, CASHMERE ''hasIntentionDescription'', BNode ''intent1''),
      (BNode ''intent1'', CASHMERE ''hasStructuredDescription'', Literal raise_blinds_json)]"

text \<open>The same signifier with a context node.\<close>

definition graph_with_context :: graph where
  "graph_with_context =
     graph_without_context
     @ [(raise_blinds_node, CASHMERE ''recommendsContext'', BNode ''context1'')]"

text \<open>A graph that only types a node as a signifier.\<close>

definition graph_typing_only :: graph where
  "graph_typing_only = [(raise_blinds_node, RDF_type, CASHMERE ''Signifier'')]"

definition raise_blinds_parsed :: Signifier where
  "raise_blinds_parsed =
     \<lparr> signifier_id = ''raise-blinds-signifier'', version = 1, status = ACTIVE,
       intent = \<lparr> nl_text = ''raise blinds'',
                  structured = Some [(''intent'', JStr ''raise blinds'')] \<rparr>,
       intent_context = \<lparr> structured_conditions = [], shacl_shapes = None,
                          nl_description = None \<rparr>,
       affordance_uri = ''http://example.org/affordances/raise'',
       provenance = \<lparr> created_by = ''system'', source = ''rdf_import'' \<rparr>,
       indexes = [] \<rparr>"

section \<open>Ranker and policy (src/ranking/ranker.py)\<close>

text \<open>
  Python floats are modelled as reals: rounding, infinities and NaN are outside the model.
  A signal value is either a Python bool or a number (\<open>isinstance(signal.value, bool)\<close>
  tells them apart in \<open>_calculate_weighted_score\<close>).
\<close>

datatype signal_value = BoolVal bool | NumVal real

record RankingSignal =
  sig_name :: string
  sig_value :: signal_value
  sig_weight :: real
  is_gate :: bool

text \<open>
  The candidate dictionaries read by \<open>Ranker.rank\<close>: every key is read with
  \<open>candidate.get(key, default)\<close>, so each field is optional (\<open>None\<close>: key absent).
\<close>

record candidate =
  c_signifier_id :: "string option"
  c_intent_similarity :: "real option"
  c_shacl_conforms :: "bool option"
  c_shacl_has_shapes :: "bool option"
  c_sse_pass :: "bool option"
  c_constraint_count :: "int option"

text \<open>
  \<open>RankedResult\<close> without its \<open>explanation\<close> strings (formatted floats); the metadata
  dictionary is the pair of fields \<open>md_constraint_count\<close>, \<open>md_shacl_has_shapes\<close>.
\<close>

record RankedResult =
  rr_signifier_id :: "string option"
  final_score :: real
  signals :: "RankingSignal list"
  passed_gates :: bool
  md_constraint_count :: int
  md_shacl_has_shapes :: bool

record Ranker =
  weights :: "(string \<times> real) list"
  enable_shacl_gate :: bool
  enable_sse_gate :: bool
  specificity_boost :: real

definition default_weights :: "(string \<times> real) list" where
  "default_weights = [(''intent_similarity'', 7 / 10), (''shacl'', 2 / 10), (''sse'', 1 / 10)]"

text \<open>\<open>Ranker.__init__\<close>: \<open>weights or {...}\<close> takes the defaults for \<open>None\<close> and for an empty dict.\<close>

definition Ranker_init ::
  "(string \<times> real) list option \<Rightarrow> bool \<Rightarrow> bool \<Rightarrow> real \<Rightarrow> Ranker" where
  "Ranker_init w shacl_gate sse_gate boost =
     \<lparr> weights = (case w of None \<Rightarrow> default_weights
                    | Some ws \<Rightarrow> if ws = [] then default_weights else ws),
       enable_shacl_gate = shacl_gate,
       enable_sse_gate = sse_gate,
       specificity_boost = boost \<rparr>"

definition default_Ranker :: Ranker where
  "default_Ranker = Ranker_init None True False (1 / 100)"

text \<open>\<open>self.weights.get(key, default)\<close>\<close>

definition weights_get :: "Ranker \<Rightarrow> string \<Rightarrow> real \<Rightarrow> real" where
  "weights_get r k d = (case map_of (weights r) k of None \<Rightarrow> d | Some w \<Rightarrow> w)"

text \<open>The loop of \<open>_calculate_weighted_score\<close>, on the pair (total_weight, weighted_sum).\<close>

fun weighted_loop :: "RankingSignal list \<Rightarrow> real \<times> real \<Rightarrow> real \<times> real" where
  "weighted_loop [] acc = acc"
| "weighted_loop (s # ss) (total_weight, weighted_sum) =
     (if is_gate s then weighted_loop ss (total_weight, weighted_sum)
      else
        let signal_value = (case sig_value s of
                              BoolVal b \<Rightarrow> (if b then 1 else 0)
                            | NumVal v \<Rightarrow> v)
        in weighted_loop ss (total_weight + sig_weight s,
                             weighted_sum + signal_value * sig_weight s))"

definition calculate_weighted_score :: "RankingSignal list \<Rightarrow> real" where
  "calculate_weighted_score sigs =
     (case weighted_loop sigs (0, 0) of
        (total_weight, weighted_sum) \<Rightarrow>
          if total_weight = 0 then 0 else weighted_sum / total_weight)"

text \<open>The body of the \<open>for candidate in candidates\<close> loop of \<open>Ranker.rank\<close>.\<close>

definition rank_candidate :: "Ranker \<Rightarrow> candidate \<Rightarrow> RankedResult" where
  "rank_candidate r c =
     (let intent_similarity = (case c_intent_similarity c of None \<Rightarrow> 0 | Some v \<Rightarrow> v);
          shacl_conforms = (case c_shacl_conforms c of None \<Rightarrow> True | Some b \<Rightarrow> b);
          shacl_has_shapes = (case c_shacl_has_shapes c of None \<Rightarrow> False | Some b \<Rightarrow> b);
          sse_pass = (case c_sse_pass c of None \<Rightarrow> True | Some b \<Rightarrow> b);
          constraint_count = (case c_constraint_count c of None \<Rightarrow> 0 | Some n \<Rightarrow> n);
          intent_signal = \<lparr> sig_name = ''intent_similarity'',
                            sig_value = NumVal intent_similarity,
                            sig_weight = weights_get r ''intent_similarity'' (7 / 10),
                            is_gate = False \<rparr>;
          shacl_signals =
            (if shacl_has_shapes
             then [\<lparr> sig_name = ''shacl_conforms'', sig_value = BoolVal shacl_conforms,
                     sig_weight = weights_get r ''shacl'' (2 / 10),
                     is_gate = enable_shacl_gate r \<rparr>]
             else []);
          shacl_gate_failed = (shacl_has_shapes \<and> \<not> shacl_conforms \<and> enable_shacl_gate r);
          sse_signals =
            (if c_sse_pass c \<noteq> None
             then [\<lparr> sig_name = ''sse_pass'', sig_value = BoolVal sse_pass,
                     sig_weight = weights_get r ''sse'' (1 / 10),
                     is_gate = enable_sse_gate r \<rparr>]
             else []);
          sse_gate_failed = (c_sse_pass c \<noteq> None \<and> \<not> sse_pass \<and> enable_sse_gate r);
          sigs = [intent_signal] @ shacl_signals @ sse_signals;
          passed = (\<not> shacl_gate_failed \<and> \<not> sse_gate_failed);
          score =
            (if passed
             then (let s = calculate_weighted_score sigs
                   in if constraint_count > 0
                      then min 1 (s + real_of_int constraint_count * specificity_boost r)
                      else s)
             else 0)
      in \<lparr> rr_signifier_id = c_signifier_id c,
           final_score = score,
           signals = sigs,
           passed_gates = passed,
           md_constraint_count = constraint_count,
           md_shacl_has_shapes = shacl_has_shapes \<rparr>)"

text \<open>
  \<open>ranked_results.sort(key=lambda r: r.final_score, reverse=True)\<close>: Python's sort is stable,
  also with \<open>reverse=True\<close> (equal keys keep their original order). \<open>sort_key\<close> is the stable
  insertion sort of the list library; descending order is ascending order of the negated key.
\<close>

definition rank :: "Ranker \<Rightarrow> candidate list \<Rightarrow> RankedResult list" where
  "rank r candidates = sort_key (\<lambda>x. - final_score x) (map (rank_candidate r) candidates)"

subsection \<open>The scoring rule in the words of the specification\<close>








subsection \<open>Example candidates\<close>

definition cand :: "string \<Rightarrow> real \<Rightarrow> candidate" where
  "cand i s = \<lparr> c_signifier_id = Some i, c_intent_similarity = Some s, c_shacl_conforms = None,
      c_shacl_has_shapes = None, c_sse_pass = None, c_constraint_count = None \<rparr>"





section \<open>Structured Subsumption Engine (src/subsumption/sse.py)\<close>

text \<open>\<open>SSEViolation\<close> without its formatted \<open>message\<close> text.\<close>

record SSEViolation =
  v_artifact :: string
  v_property_affordance :: string
  v_operator :: string
  expected_value :: pyval
  actual_value :: pyval

record SSEResult =
  sse_pass :: bool
  violations :: "SSEViolation list"
  conditions_checked :: nat
  missing_properties :: "(string \<times> string) list"

record SSE =
  missing_value_policy :: string
  enable_type_coercion :: bool

subsection \<open>Python comparison of values\<close>

definition is_number :: "pyval \<Rightarrow> bool" where
  "is_number v = (case v of PyBool _ \<Rightarrow> True | PyInt _ \<Rightarrow> True | PyFloat _ \<Rightarrow> True | _ \<Rightarrow> False)"

definition is_str :: "pyval \<Rightarrow> bool" where
  "is_str v = (case v of PyStr _ \<Rightarrow> True | _ \<Rightarrow> False)"

definition num_of :: "pyval \<Rightarrow> real" where
  "num_of v = (case v of PyBool b \<Rightarrow> (if b then 1 else 0) | PyInt i \<Rightarrow> real_of_int i
                        | PyFloat x \<Rightarrow> x | _ \<Rightarrow> 0)"

text \<open>\<open>a < b\<close>: numbers compare by value, strings lexicographically, two lists or
  dictionaries as the runtime does; any other pair raises \<open>TypeError\<close> (\<open>None\<close>).\<close>

definition py_lt :: "py_runtime \<Rightarrow> pyval \<Rightarrow> pyval \<Rightarrow> bool option" where
  "py_lt rt a b =
     (if is_number a \<and> is_number b then Some (num_of a < num_of b)
      else case (a, b) of (PyStr s, PyStr t) \<Rightarrow> Some (s < t)
                        | (PyCompound x, PyCompound y) \<Rightarrow> lt_compound rt x y
                        | _ \<Rightarrow> None)"

definition py_le :: "py_runtime \<Rightarrow> pyval \<Rightarrow> pyval \<Rightarrow> bool option" where
  "py_le rt a b =
     (if is_number a \<and> is_number b then Some (num_of a \<le> num_of b)
      else case (a, b) of (PyStr s, PyStr t) \<Rightarrow> Some (s \<le> t)
                        | (PyCompound x, PyCompound y) \<Rightarrow> le_compound rt x y
                        | _ \<Rightarrow> None)"

text \<open>\<open>a == b\<close> never raises: numbers compare by value (\<open>True == 1\<close>), strings and \<open>None\<close> with
  their own kind, two lists or dictionaries as the runtime does, and values of different kinds
  are unequal.\<close>

definition py_eq :: "py_runtime \<Rightarrow> pyval \<Rightarrow> pyval \<Rightarrow> bool" where
  "py_eq rt a b =
     (if is_number a \<and> is_number b then num_of a = num_of b
      else case (a, b) of (PyStr s, PyStr t) \<Rightarrow> s = t | (PyNone, PyNone) \<Rightarrow> True
                        | (PyCompound x, PyCompound y) \<Rightarrow> eq_compound rt x y
                        | _ \<Rightarrow> False)"

text \<open>\<open>float(x)\<close>: a string is parsed; \<open>None\<close>, a list and a dictionary raise
  \<open>TypeError\<close>.\<close>

definition py_float :: "py_runtime \<Rightarrow> pyval \<Rightarrow> real option" where
  "py_float rt v = (case v of PyStr s \<Rightarrow> float_of_str rt s | PyNone \<Rightarrow> None
                           | PyCompound _ \<Rightarrow> None | _ \<Rightarrow> Some (num_of v))"

subsection \<open>\<open>SSE._evaluate_condition\<close>\<close>

text \<open>The coercion block: a failed \<open>float(actual_value)\<close> is caught and logged, and
  \<open>actual_value\<close> keeps its value.\<close>

definition coerce :: "py_runtime \<Rightarrow> SSE \<Rightarrow> pyval \<Rightarrow> pyval \<Rightarrow> pyval" where
  "coerce rt sse expected actual =
     (if enable_type_coercion sse then
        (if is_number expected \<and> \<not> is_number actual then
           (case py_float rt actual of Some x \<Rightarrow> PyFloat x | None \<Rightarrow> actual)
         else if is_str expected \<and> \<not> is_str actual then PyStr (py_str rt actual)
         else actual)
      else actual)"

text \<open>The comparison block: a \<open>TypeError\<close> of the comparison gives \<open>False\<close>, and so does an
  unknown operator. \<open>a > b\<close> and \<open>a >= b\<close> are the reflected \<open>b < a\<close> and \<open>b <= a\<close>.\<close>

definition evaluate_condition :: "py_runtime \<Rightarrow> SSE \<Rightarrow> ValueCondition \<Rightarrow> pyval \<Rightarrow> bool" where
  "evaluate_condition rt sse condition actual0 =
     (let expected = vc_value condition;
          op = operator condition;
          actual = coerce rt sse expected actual0;
          or_false = (\<lambda>r. case r of None \<Rightarrow> False | Some b \<Rightarrow> b)
      in if op = ''greaterThan'' then or_false (py_lt rt expected actual)
         else if op = ''lessThan'' then or_false (py_lt rt actual expected)
         else if op = ''greaterEqual'' then or_false (py_le rt expected actual)
         else if op = ''lessEqual'' then or_false (py_le rt actual expected)
         else if op = ''equals'' then py_eq rt actual expected
         else if op = ''notEquals'' then \<not> py_eq rt actual expected
         else False)"

subsection \<open>\<open>SSE.evaluate\<close>\<close>

text \<open>The context features \<open>{artifact_uri: {property_uri: value}}\<close>.\<close>

type_synonym context_features = "string \<rightharpoonup> (string \<rightharpoonup> pyval)"

text \<open>The loop state: violations, missing_properties, conditions_checked.\<close>

type_synonym sse_state = "SSEViolation list \<times> (string \<times> string) list \<times> nat"

definition missing_violation :: "string \<Rightarrow> string \<Rightarrow> SSEViolation" where
  "missing_violation a p =
     \<lparr> v_artifact = a, v_property_affordance = p, v_operator = ''missing'',
       expected_value = PyStr ''<present>'', actual_value = PyNone \<rparr>"

text \<open>The violation that \<open>evaluate\<close> records for a value condition that did not pass.\<close>

definition value_violation :: "string \<Rightarrow> string \<Rightarrow> ValueCondition \<Rightarrow> pyval \<Rightarrow> SSEViolation" where
  "value_violation a p vc actual =
     \<lparr> v_artifact = a, v_property_affordance = p, v_operator = operator vc,
       expected_value = vc_value vc, actual_value = actual \<rparr>"

text \<open>The inner loop over \<open>condition.value_conditions\<close>.\<close>

fun check_value_conditions ::
  "py_runtime \<Rightarrow> SSE \<Rightarrow> string \<Rightarrow> string \<Rightarrow> pyval \<Rightarrow> ValueCondition list \<Rightarrow> sse_state \<Rightarrow> sse_state"
where
  "check_value_conditions rt sse a p actual [] st = st"
| "check_value_conditions rt sse a p actual (vc # vcs) (viol, miss, n) =
     (let passed = evaluate_condition rt sse vc actual;
          viol' = (if \<not> passed then viol @ [value_violation a p vc actual] else viol)
      in check_value_conditions rt sse a p actual vcs (viol', miss, Suc n))"

text \<open>The outer loop over \<open>structured_conditions\<close>.\<close>

fun evaluate_loop ::
  "py_runtime \<Rightarrow> SSE \<Rightarrow> context_features \<Rightarrow> StructuredCondition list \<Rightarrow> sse_state \<Rightarrow> sse_state"
where
  "evaluate_loop rt sse ctx [] st = st"
| "evaluate_loop rt sse ctx (c # cs) (viol, miss, n) =
     (let a = artifact c; p = property_affordance c;
          artifact_data = (case ctx a of None \<Rightarrow> Map.empty | Some d \<Rightarrow> d)
      in case artifact_data p of
           None \<Rightarrow>
             (if missing_value_policy sse = ''fail''
              then evaluate_loop rt sse ctx cs (viol @ [missing_violation a p], miss @ [(a, p)], n)
              else evaluate_loop rt sse ctx cs (viol, miss @ [(a, p)], n))
         | Some actual \<Rightarrow>
             evaluate_loop rt sse ctx cs
               (check_value_conditions rt sse a p actual (value_conditions c) (viol, miss, n)))"

definition evaluate ::
  "py_runtime \<Rightarrow> SSE \<Rightarrow> StructuredCondition list \<Rightarrow> context_features \<Rightarrow> SSEResult" where
  "evaluate rt sse conditions ctx =
     (if conditions = []
      then \<lparr> sse_pass = True, violations = [], conditions_checked = 0, missing_properties = [] \<rparr>
      else case evaluate_loop rt sse ctx conditions ([], [], 0) of
             (viol, miss, n) \<Rightarrow>
               \<lparr> sse_pass = (length viol = 0), violations = viol, conditions_checked = n,
                 missing_properties = miss \<rparr>)"

subsection \<open>Notions used to state the properties of the engine\<close>

text \<open>The (artifact, property) pair of a condition is absent from the context features.\<close>

definition property_missing :: "context_features \<Rightarrow> StructuredCondition \<Rightarrow> bool" where
  "property_missing ctx c \<longleftrightarrow>
     (case ctx (artifact c) of None \<Rightarrow> True | Some d \<Rightarrow> d (property_affordance c) = None)"

text \<open>The violations that one structured condition contributes.\<close>

definition condition_violations ::
  "py_runtime \<Rightarrow> SSE \<Rightarrow> context_features \<Rightarrow> StructuredCondition \<Rightarrow> SSEViolation list" where
  "condition_violations rt sse ctx c =
     (case (case ctx (artifact c) of None \<Rightarrow> Map.empty | Some d \<Rightarrow> d) (property_affordance c) of
        None \<Rightarrow> if missing_value_policy sse = ''fail''
                then [missing_violation (artifact c) (property_affordance c)] else []
      | Some actual \<Rightarrow>
          map (\<lambda>vc. value_violation (artifact c) (property_affordance c) vc actual)
              (filter (\<lambda>vc. \<not> evaluate_condition rt sse vc actual) (value_conditions c)))"

text \<open>Coercion is attempted and fails: the expected value is a number, the actual value is
  not, and \<open>float(actual_value)\<close> raises. (The other coercion, \<open>str(actual_value)\<close>, cannot
  fail.)\<close>

definition coercion_fails :: "py_runtime \<Rightarrow> SSE \<Rightarrow> pyval \<Rightarrow> pyval \<Rightarrow> bool" where
  "coercion_fails rt sse expected actual \<longleftrightarrow>
     enable_type_coercion sse \<and> is_number expected \<and> \<not> is_number actual
     \<and> py_float rt actual = None"

subsection \<open>Example inputs\<close>

definition sse_with_policy :: "string \<Rightarrow> SSE" where
  "sse_with_policy p = \<lparr> missing_value_policy = p, enable_type_coercion = True \<rparr>"

definition vcond :: "string \<Rightarrow> pyval \<Rightarrow> ValueCondition" where
  "vcond op v = \<lparr> operator = op, vc_value = v, vc_datatype = None \<rparr>"

definition luminosity_condition :: StructuredCondition where
  "luminosity_condition =
     \<lparr> artifact = ''http://example.org/artifacts/lum308'',
       property_affordance = ''http://example.org/LightSensor#hasLuminosityLevel'',
       value_conditions = [vcond ''greaterEqual'' (PyInt 10000)] \<rparr>"

text \<open>A structured condition with two value conditions against the number 5, and a context
  in which the property has the value \<open>'abc'\<close>.\<close>

definition abc_condition :: StructuredCondition where
  "abc_condition =
     \<lparr> artifact = ''a'', property_affordance = ''p'',
       value_conditions = [vcond ''greaterThan'' (PyInt 5), vcond ''notEquals'' (PyInt 5)] \<rparr>"

definition abc_context :: context_features where
  "abc_context = [''a'' \<mapsto> [''p'' \<mapsto> PyStr ''abc'']]"

section \<open>Intent matcher v0 (src/matching/string_matcher.py)\<close>

text \<open>
  A character of the model is a code point below 256 (Latin-1), the range of the type
  \<open>char\<close>; text with other code points is not representable. On this range a word character
  (\<open>\w\<close> of a \<open>str\<close> pattern: alphanumeric or the underscore) is one of the code points listed
  in \<open>is_word_char\<close>, and \<open>str.lower()\<close> adds 32 to the code points of \<open>A\<close>..\<open>Z\<close> and of the
  upper-case letters 192..214 and 216..222, and leaves every other code point as it is.
\<close>

definition is_upper :: "char \<Rightarrow> bool" where
  "is_upper c \<longleftrightarrow>
     (let n = (of_char c :: nat)
      in (65 \<le> n \<and> n \<le> 90) \<or> (192 \<le> n \<and> n \<le> 214) \<or> (216 \<le> n \<and> n \<le> 222))"

definition is_word_char :: "char \<Rightarrow> bool" where
  "is_word_char c \<longleftrightarrow>
     (let n = (of_char c :: nat)
      in (48 \<le> n \<and> n \<le> 57) \<or> (65 \<le> n \<and> n \<le> 90) \<or> n = 95 \<or> (97 \<le> n \<and> n \<le> 122)
         \<or> n = 170 \<or> n = 178 \<or> n = 179 \<or> n = 181 \<or> n = 185 \<or> n = 186
         \<or> (188 \<le> n \<and> n \<le> 190) \<or> (192 \<le> n \<and> n \<le> 214) \<or> (216 \<le> n \<and> n \<le> 246)
         \<or> (248 \<le> n \<and> n \<le> 255))"

definition lower_char :: "char \<Rightarrow> char" where
  "lower_char c = (if is_upper c then char_of ((of_char c :: nat) + 32) else c)"

definition lower :: "string \<Rightarrow> string" where
  "lower s = map lower_char s"

text \<open>\<open>re.findall(r'\b\w+\b', text)\<close>: the maximal runs of word characters, left to right.
  The second argument is the run being read.\<close>

fun findall_words :: "string \<Rightarrow> string \<Rightarrow> string list" where
  "findall_words [] cur = (if cur = [] then [] else [cur])"
| "findall_words (c # cs) cur =
     (if is_word_char c then findall_words cs (cur @ [c])
      else if cur = [] then findall_words cs []
      else cur # findall_words cs [])"

definition tokenize :: "string \<Rightarrow> bool \<Rightarrow> string list" where
  "tokenize text case_sensitive =
     (let text' = (if case_sensitive then text else lower text);
          tokens = findall_words text' []
      in filter (\<lambda>t. length t > 2) tokens)"

text \<open>The signifier dictionaries handed to the matcher; every key is read with
  \<open>.get(key, default)\<close>.\<close>

record intent_dict =
  i_nl_text :: "string option"
  i_structured :: "py_dict option"

record signifier_dict =
  sd_signifier_id :: "string option"
  sd_intent :: "intent_dict option"

record MatchResult =
  mr_signifier_id :: string
  similarity :: real
  matched_tokens :: "string list"

text \<open>The tokens of a signifier, computed alike by \<open>_compute_similarity\<close> and
  \<open>_get_matched_tokens\<close>: \<open>nl_tokens + structured_tokens\<close>, where the structured text is
  \<open>str(structured)\<close> for a non-empty dictionary and the empty string otherwise. The source
  turns the list into a set; membership in the list is membership in that set.\<close>

definition signifier_tokens :: "py_runtime \<Rightarrow> signifier_dict \<Rightarrow> bool \<Rightarrow> string list" where
  "signifier_tokens rt signifier case_sensitive =
     (let intent = (case sd_intent signifier of
                      None \<Rightarrow> \<lparr> i_nl_text = None, i_structured = None \<rparr> | Some i \<Rightarrow> i);
          nl_text = (case i_nl_text intent of None \<Rightarrow> [] | Some t \<Rightarrow> t);
          structured = (case i_structured intent of None \<Rightarrow> [] | Some d \<Rightarrow> d);
          nl_tokens = tokenize nl_text case_sensitive;
          structured_text = (if structured \<noteq> [] then str_of_json rt (JObj structured) else []);
          structured_tokens = tokenize structured_text case_sensitive
      in nl_tokens @ structured_tokens)"

definition compute_similarity ::
  "py_runtime \<Rightarrow> string list \<Rightarrow> signifier_dict \<Rightarrow> bool \<Rightarrow> real" where
  "compute_similarity rt query_tokens signifier case_sensitive =
     (let all_signifier_tokens = signifier_tokens rt signifier case_sensitive
      in if all_signifier_tokens = [] then 0
         else
           let matches = length (filter (\<lambda>token. token \<in> set all_signifier_tokens) query_tokens)
           in if query_tokens \<noteq> [] then real matches / real (length query_tokens) else 0)"

definition get_matched_tokens ::
  "py_runtime \<Rightarrow> string list \<Rightarrow> signifier_dict \<Rightarrow> bool \<Rightarrow> string list" where
  "get_matched_tokens rt query_tokens signifier case_sensitive =
     filter (\<lambda>token. token \<in> set (signifier_tokens rt signifier case_sensitive)) query_tokens"

text \<open>The \<open>MatchResult\<close> that \<open>match\<close> builds for a signifier.\<close>

definition match_result ::
  "py_runtime \<Rightarrow> string list \<Rightarrow> bool \<Rightarrow> signifier_dict \<Rightarrow> MatchResult" where
  "match_result rt query_tokens case_sensitive signifier =
     \<lparr> mr_signifier_id = (case sd_signifier_id signifier of None \<Rightarrow> ''unknown'' | Some i \<Rightarrow> i),
       similarity = compute_similarity rt query_tokens signifier case_sensitive,
       matched_tokens = get_matched_tokens rt query_tokens signifier case_sensitive \<rparr>"

text \<open>The loop of \<open>match\<close> that collects the results with a positive similarity.\<close>

fun match_loop ::
  "py_runtime \<Rightarrow> string list \<Rightarrow> bool \<Rightarrow> signifier_dict list \<Rightarrow> MatchResult list" where
  "match_loop rt query_tokens case_sensitive [] = []"
| "match_loop rt query_tokens case_sensitive (signifier # rest) =
     (let sim = compute_similarity rt query_tokens signifier case_sensitive
      in if sim > 0
         then match_result rt query_tokens case_sensitive signifier
              # match_loop rt query_tokens case_sensitive rest
         else match_loop rt query_tokens case_sensitive rest)"

text \<open>The slice \<open>xs[:k]\<close>: a negative \<open>k\<close> counts from the end.\<close>

definition slice_to :: "int \<Rightarrow> 'a list \<Rightarrow> 'a list" where
  "slice_to k xs = (if 0 \<le> k then take (nat k) xs else take (length xs - nat (- k)) xs)"

definition match_v0 ::
  "py_runtime \<Rightarrow> string \<Rightarrow> signifier_dict list \<Rightarrow> int \<Rightarrow> bool \<Rightarrow> error + MatchResult list" where
  "match_v0 rt intent_query signifiers k case_sensitive =
     (if intent_query = [] then Inl InvalidInput
      else if signifiers = [] then Inr []
      else
        let query_tokens = tokenize intent_query case_sensitive;
            results = match_loop rt query_tokens case_sensitive signifiers;
            sorted_results = sort_key (\<lambda>x. - similarity x) results
        in Inr (slice_to k sorted_results))"

subsection \<open>The similarity in the words of the specification\<close>

text \<open>\<open>|{t \<in> Q : t \<in> S}| / |Q|\<close> read with a set in the numerator: the number of distinct
  tokens of the query that are tokens of the signifier, over the length of \<open>Q\<close>.\<close>

definition spec_similarity_distinct :: "string list \<Rightarrow> string set \<Rightarrow> real" where
  "spec_similarity_distinct Q S = real (card {t \<in> set Q. t \<in> S}) / real (length Q)"

subsection \<open>Example signifiers\<close>

definition sdict :: "string \<Rightarrow> string \<Rightarrow> signifier_dict" where
  "sdict i text =
     \<lparr> sd_signifier_id = Some i,
       sd_intent = Some \<lparr> i_nl_text = Some text, i_structured = None \<rparr> \<rparr>"

text \<open>A signifier with a structured field, whose string form is \<open>{'verb': 'increase'}\<close>.\<close>

definition sdict_verb :: signifier_dict where
  "sdict_verb =
     \<lparr> sd_signifier_id = Some ''s2'',
       sd_intent = Some \<lparr> i_nl_text = Some ''raise blinds'',
                          i_structured = Some [(''verb'', JStr ''increase'')] \<rparr> \<rparr>"

section \<open>Memory store (src/storage/memory_store.py)\<close>

text \<open>
  The three stores: the JSON directory (one file \<open><id>.json\<close> per signifier, holding the
  document of its current version), the RDF directory (file name to stored graph) and the
  property index. The JSON directory is a list so that it can be enumerated; the enumeration
  order of a directory is not specified, and a file that is rewritten keeps its place here.
  File-system failures are not modelled.
\<close>

record MemoryStore =
  json_files :: "(string \<times> Signifier) list"
  rdf_files :: "(string \<times> graph) list"
  property_index :: "(string \<times> string) \<rightharpoonup> string set"

definition empty_store :: MemoryStore where
  "empty_store = \<lparr> json_files = [], rdf_files = [], property_index = Map.empty \<rparr>"

text \<open>\<open>_get_rdf_path\<close>: the file name \<open><id>_v<version>.ttl\<close>.\<close>

definition get_rdf_path :: "string \<Rightarrow> int \<Rightarrow> string" where
  "get_rdf_path sid ver = sid @ ''_v'' @ str_of_int ver @ ''.ttl''"

text \<open>\<open>store_rdf_graph\<close>: the text is parsed and the graph is written to the file of the
  version; a parser failure is the \<open>ValueError\<close> ``Invalid RDF data''.\<close>

definition store_rdf_graph ::
  "MemoryStore \<Rightarrow> string \<Rightarrow> int \<Rightarrow> rdf_text \<Rightarrow> error + MemoryStore" where
  "store_rdf_graph st sid ver rdf_data =
     (case parses_to rdf_data of
        None \<Rightarrow> Inl InvalidRDFData
      | Some g \<Rightarrow> Inr (st \<lparr> rdf_files := AList.update (get_rdf_path sid ver) g (rdf_files st) \<rparr>))"


definition store_json_document :: "MemoryStore \<Rightarrow> Signifier \<Rightarrow> MemoryStore" where
  "store_json_document st s =
     st \<lparr> json_files := AList.update (signifier_id s) s (json_files st) \<rparr>"

definition get_json_document :: "MemoryStore \<Rightarrow> string \<Rightarrow> Signifier option" where
  "get_json_document st sid = map_of (json_files st) sid"

text \<open>The loop of \<open>update_property_index\<close>: the id is added to the set of every key of the
  signifier. Nothing is removed.\<close>

fun add_index_keys ::
  "string \<Rightarrow> (string \<times> string) list \<Rightarrow> ((string \<times> string) \<rightharpoonup> string set)
     \<Rightarrow> ((string \<times> string) \<rightharpoonup> string set)" where
  "add_index_keys sid [] idx = idx"
| "add_index_keys sid (key # keys) idx =
     add_index_keys sid keys
       (idx(key \<mapsto> insert sid (case idx key of None \<Rightarrow> {} | Some ids \<Rightarrow> ids)))"

definition update_property_index :: "MemoryStore \<Rightarrow> Signifier \<Rightarrow> MemoryStore" where
  "update_property_index st s =
     st \<lparr> property_index := add_index_keys (signifier_id s) (get_property_keys s)
                               (property_index st) \<rparr>"

text \<open>\<open>MemoryStore.find_by_property\<close>: the ids of the index entry (a list in no particular
  order in the source).\<close>

definition store_find_by_property :: "MemoryStore \<Rightarrow> string \<Rightarrow> string \<Rightarrow> string set" where
  "store_find_by_property st artifact_uri property_uri =
     (case property_index st (artifact_uri, property_uri) of None \<Rightarrow> {} | Some ids \<Rightarrow> ids)"


text \<open>
  \<open>delete_signifier\<close> with \<open>version=None\<close>: the RDF files that the glob
  \<open>f"{signifier_id}_v*.ttl"\<close> selects in the RDF directory, the JSON file, and the id in every
  index entry; an entry that becomes empty is deleted. The id is part of the glob pattern as
  it is, so its \<open>*\<close>, \<open>?\<close> and \<open>[\<close> are pattern characters. An exception (here: of the glob)
  is caught, nothing is deleted and the result is \<open>False\<close>.
\<close>

definition delete_signifier ::
  "py_runtime \<Rightarrow> MemoryStore \<Rightarrow> string \<Rightarrow> bool \<times> MemoryStore" where
  "delete_signifier rt st sid =
     (case path_glob rt (sid @ ''_v*.ttl'') (map fst (rdf_files st)) of
        None \<Rightarrow> (False, st)
      | Some selected \<Rightarrow>
          (True,
           \<lparr> json_files = filter (\<lambda>f. fst f \<noteq> sid) (json_files st),
             rdf_files = filter (\<lambda>f. fst f \<notin> set selected) (rdf_files st),
             property_index =
               (\<lambda>key. case property_index st key of
                        None \<Rightarrow> None
                      | Some ids \<Rightarrow> if ids - {sid} = {} then None else Some (ids - {sid})) \<rparr>))"

section \<open>Signifier registry (src/storage/registry.py)\<close>

text \<open>
  An operation returns its result, or the exception it raises, together with the store as the
  operation leaves it: what was written before an exception stays written.
\<close>

text \<open>\<open>get\<close>: the document is rebuilt as a \<open>Signifier\<close>, which checks the field constraints;
  a document that fails them gives \<open>None\<close>.\<close>

definition get :: "MemoryStore \<Rightarrow> string \<Rightarrow> Signifier option" where
  "get st sid =
     (case get_json_document st sid of
        None \<Rightarrow> None
      | Some s \<Rightarrow> if valid_signifier s then Some s else None)"

definition create ::
  "py_runtime \<Rightarrow> MemoryStore \<Rightarrow> Signifier \<Rightarrow> rdf_text option
     \<Rightarrow> (error + Signifier) \<times> MemoryStore" where
  "create rt st signifier rdf_data =
     (if get_json_document st (signifier_id signifier) \<noteq> None then (Inl AlreadyExists, st)
      else
        let normalized = normalize_signifier signifier;
            st1 = store_json_document st normalized;
            st2 = update_property_index st1 normalized
        in if rdf_truthy rdf_data then
             (case store_rdf_graph st2 (signifier_id normalized) (version normalized)
                     (the rdf_data) of
                Inl e \<Rightarrow> (Inr normalized, st2)
              | Inr st3 \<Rightarrow> (Inr normalized, st3))
           else
             (case generate_rdf rt normalized of
                Inl e \<Rightarrow> (Inl e, st2)
              | Inr rdf_generated \<Rightarrow>
                  (case store_rdf_graph st2 (signifier_id normalized) (version normalized)
                          rdf_generated of
                     Inl e \<Rightarrow> (Inl e, st2)
                   | Inr st3 \<Rightarrow> (Inr normalized, st3))))"

definition create_from_rdf ::
  "py_runtime \<Rightarrow> MemoryStore \<Rightarrow> rdf_text \<Rightarrow> (error + Signifier) \<times> MemoryStore" where
  "create_from_rdf rt st rdf_data =
     (case parse_rdf_signifier rt rdf_data of
        Inl e \<Rightarrow> (Inl e, st)
      | Inr signifier \<Rightarrow> create rt st signifier (Some rdf_data))"

definition update ::
  "py_runtime \<Rightarrow> MemoryStore \<Rightarrow> Signifier \<Rightarrow> bool \<Rightarrow> (error + Signifier) \<times> MemoryStore" where
  "update rt st signifier0 create_new_version =
     (case get_json_document st (signifier_id signifier0) of
        None \<Rightarrow> (Inl NotFound, st)
      | Some existing_doc \<Rightarrow>
          let signifier = (if create_new_version
                           then signifier0 \<lparr> version := version existing_doc + 1 \<rparr>
                           else signifier0);
              normalized = normalize_signifier signifier;
              st1 = store_json_document st normalized;
              st2 = update_property_index st1 normalized
          in case generate_rdf rt normalized of
               Inl e \<Rightarrow> (Inl e, st2)
             | Inr rdf_generated \<Rightarrow>
                 (case store_rdf_graph st2 (signifier_id normalized) (version normalized)
                         rdf_generated of
                    Inl e \<Rightarrow> (Inl e, st2)
                  | Inr st3 \<Rightarrow> (Inr normalized, st3)))"

text \<open>\<open>delete\<close> returns the success flag of the store.\<close>

definition delete :: "py_runtime \<Rightarrow> MemoryStore \<Rightarrow> string \<Rightarrow> bool \<times> MemoryStore" where
  "delete rt st sid = delete_signifier rt st sid"






definition update_status ::
  "py_runtime \<Rightarrow> MemoryStore \<Rightarrow> string \<Rightarrow> SignifierStatus
     \<Rightarrow> (error + Signifier option) \<times> MemoryStore" where
  "update_status rt st sid new_status =
     (case get st sid of
        None \<Rightarrow> (Inr None, st)
      | Some signifier \<Rightarrow>
          (case update rt st (signifier \<lparr> status := new_status \<rparr>) False of
             (Inl e, st') \<Rightarrow> (Inl e, st')
           | (Inr s, st') \<Rightarrow> (Inr (Some s), st')))"

subsection \<open>Sequences of registry operations\<close>

datatype registry_op =
    Create Signifier "rdf_text option"
  | CreateFromRdf rdf_text
  | Update Signifier bool
  | UpdateStatus string SignifierStatus
  | Delete string

definition run_op :: "py_runtime \<Rightarrow> MemoryStore \<Rightarrow> registry_op \<Rightarrow> MemoryStore" where
  "run_op rt st op =
     (case op of
        Create s rdf \<Rightarrow> snd (create rt st s rdf)
      | CreateFromRdf rdf \<Rightarrow> snd (create_from_rdf rt st rdf)
      | Update s new_version \<Rightarrow> snd (update rt st s new_version)
      | UpdateStatus sid new_status \<Rightarrow> snd (update_status rt st sid new_status)
      | Delete sid \<Rightarrow> snd (delete rt st sid))"

definition run_ops :: "py_runtime \<Rightarrow> MemoryStore \<Rightarrow> registry_op list \<Rightarrow> MemoryStore" where
  "run_ops rt st ops = fold (\<lambda>op s. run_op rt s op) ops st"

subsection \<open>Notions used to state the properties of the registry\<close>






subsection \<open>Example signifiers and texts\<close>

text \<open>The parsed example signifier with the luminosity condition, and the same signifier
  after its condition has been removed.\<close>

definition raise_blinds_lum :: Signifier where
  "raise_blinds_lum =
     raise_blinds_parsed
       \<lparr> intent_context := \<lparr> structured_conditions = [luminosity_condition],
                              shacl_shapes = None, nl_description = None \<rparr> \<rparr>"


definition unprefixed_text :: rdf_text where
  "unprefixed_text = \<lparr> text_nonempty = True, has_prefix_decl = False, parses_to = None,
                       preprocessed_parses_to = Some graph_with_context \<rparr>"


section \<open>Retrieval orchestrator: the intent matching stage (src/orchestrator/orchestrator.py)\<close>

subsection \<open>Matcher registry (src/matching/registry.py)\<close>







subsection \<open>\<open>_execute_intent_matching\<close>\<close>

text \<open>The fields of the request that the stage reads.\<close>

record RetrievalRequest =
  intent_query :: string
  pipeline :: "string list"
  matcher_version :: "string option"
  req_k :: int







subsection \<open>Example request\<close>




section \<open>Properties of the ranker\<close>










lemma default_Ranker_simps:
  "weights default_Ranker = default_weights" "enable_shacl_gate default_Ranker"
  "\<not> enable_sse_gate default_Ranker" "specificity_boost default_Ranker = 1 / 100"
  by (simp_all add: default_Ranker_def Ranker_init_def)

lemma default_weights_get:
  "weights_get default_Ranker ''intent_similarity'' d = 7 / 10"
  "weights_get default_Ranker ''shacl'' d = 2 / 10"
  "weights_get default_Ranker ''sse'' d = 1 / 10"
  by (simp_all add: weights_get_def default_Ranker_simps default_weights_def)






text \<open>
  Claim C8, as the code has it. The list returned by \<open>rank\<close> is sorted by \<open>final_score\<close>
  descending, and the sort is stable: results with equal \<open>final_score\<close> keep the order their
  candidates had in the input list. There is no comparison of \<open>signifier_id\<close>.
\<close>

theorem rank_sorted_descending_stable:
  "sorted_wrt (\<lambda>a b. final_score b \<le> final_score a) (rank r cs)
   \<and> filter (\<lambda>x. final_score x = s) (rank r cs)
       = filter (\<lambda>x. final_score x = s) (map (rank_candidate r) cs)"
proof -
  have "sorted (map (\<lambda>x. - final_score x) (rank r cs))"
    unfolding rank_def by (rule sorted_sort_key)
  then have sorted_desc: "sorted_wrt (\<lambda>a b. final_score b \<le> final_score a) (rank r cs)"
    by (simp add: sorted_wrt_map)
  have "filter (\<lambda>x. - final_score x = - s) (rank r cs)
        = filter (\<lambda>x. - final_score x = - s) (map (rank_candidate r) cs)"
    unfolding rank_def by (rule sort_key_stable)
  then have "filter (\<lambda>x. final_score x = s) (rank r cs)
        = filter (\<lambda>x. final_score x = s) (map (rank_candidate r) cs)"
    by simp
  with sorted_desc show ?thesis by simp
qed

lemma cand_half_score: "final_score (rank_candidate default_Ranker (cand i (1 / 2))) = 1 / 2"
  by (simp add: rank_candidate_def cand_def default_weights_get calculate_weighted_score_def
      Let_def)

text \<open>
  Two candidates with the same score, passed as \<open>b\<close> then \<open>a\<close>, come back as \<open>b\<close> then
  \<open>a\<close>: the tie is not ordered by \<open>signifier_id\<close> ascending.
\<close>

theorem rank_tie_by_id_counterexample:
  "map rr_signifier_id (rank default_Ranker [cand ''b'' (1 / 2), cand ''a'' (1 / 2)])
     = [Some ''b'', Some ''a'']
   \<and> map final_score (rank default_Ranker [cand ''b'' (1 / 2), cand ''a'' (1 / 2)])
     = [1 / 2, 1 / 2]
   \<and> \<not> (''b'' \<le> ''a'')"
  by (simp add: rank_def cand_half_score) (simp add: rank_candidate_def cand_def Let_def)

section \<open>Properties of the subsumption engine\<close>

lemma evaluate_loop_all_missing:
  assumes "\<forall>c \<in> set cs. property_missing ctx c"
  shows "evaluate_loop rt sse ctx cs (viol, miss, n) =
     ((if missing_value_policy sse = ''fail''
       then viol @ map (\<lambda>c. missing_violation (artifact c) (property_affordance c)) cs
       else viol),
      miss @ map (\<lambda>c. (artifact c, property_affordance c)) cs, n)"
  using assms
proof (induction cs arbitrary: viol miss)
  case Nil
  show ?case by simp
next
  case (Cons c cs)
  from Cons.prems have m: "property_missing ctx c" and rest: "\<forall>c \<in> set cs. property_missing ctx c"
    by simp_all
  from m have look: "(case ctx (artifact c) of None \<Rightarrow> Map.empty | Some d \<Rightarrow> d) (property_affordance c) = None"
    by (simp add: property_missing_def split: option.splits)
  show ?case
    by (simp add: Let_def look Cons.IH[OF rest])
qed

text \<open>
  Claim C5. A signifier with at least one structured condition, all of whose conditions refer
  to (artifact, property) pairs absent from the context features, yields \<open>sse_pass = False\<close>
  under the policy \<open>fail\<close> and \<open>sse_pass = True\<close> under the policies \<open>ignore\<close> and \<open>pass\<close>;
  a signifier with no structured conditions yields \<open>sse_pass = True\<close> under every policy.
\<close>

theorem evaluate_missing_value_policy:
  "(conds \<noteq> [] \<and> (\<forall>c \<in> set conds. property_missing ctx c) \<longrightarrow>
      (missing_value_policy sse = ''fail'' \<longrightarrow> \<not> sse_pass (evaluate rt sse conds ctx))
    \<and> (missing_value_policy sse = ''ignore'' \<or> missing_value_policy sse = ''pass''
         \<longrightarrow> sse_pass (evaluate rt sse conds ctx)))
   \<and> sse_pass (evaluate rt sse [] ctx)"
proof -
  have empty: "sse_pass (evaluate rt sse [] ctx)"
    by (simp add: evaluate_def)
  have "(missing_value_policy sse = ''fail'' \<longrightarrow> \<not> sse_pass (evaluate rt sse conds ctx))
    \<and> (missing_value_policy sse = ''ignore'' \<or> missing_value_policy sse = ''pass''
         \<longrightarrow> sse_pass (evaluate rt sse conds ctx))"
    if ne: "conds \<noteq> []" and miss: "\<forall>c \<in> set conds. property_missing ctx c"
    using ne by (auto simp add: evaluate_def evaluate_loop_all_missing[OF miss])
  with empty show ?thesis by blast
qed

lemma luminosity_missing_in_empty_context: "property_missing Map.empty luminosity_condition"
  by (simp add: property_missing_def)

theorem evaluate_missing_value_policy_witness:
  "\<not> sse_pass (evaluate sample_runtime (sse_with_policy ''fail'') [luminosity_condition] Map.empty)
   \<and> sse_pass (evaluate sample_runtime (sse_with_policy ''ignore'') [luminosity_condition] Map.empty)
   \<and> sse_pass (evaluate sample_runtime (sse_with_policy ''pass'') [luminosity_condition] Map.empty)
   \<and> sse_pass (evaluate sample_runtime (sse_with_policy ''fail'') [] Map.empty)"
  using evaluate_missing_value_policy[of "[luminosity_condition]" Map.empty "sse_with_policy ''fail''" sample_runtime]
    evaluate_missing_value_policy[of "[luminosity_condition]" Map.empty "sse_with_policy ''ignore''" sample_runtime]
    evaluate_missing_value_policy[of "[luminosity_condition]" Map.empty "sse_with_policy ''pass''" sample_runtime]
    luminosity_missing_in_empty_context
  by (simp add: sse_with_policy_def)

lemma coerce_failed_keeps_actual: "coercion_fails rt sse expected actual \<Longrightarrow> coerce rt sse expected actual = actual"
  by (simp add: coercion_fails_def coerce_def)

lemma number_against_non_number:
  assumes "is_number expected" "\<not> is_number actual"
  shows "py_lt rt expected actual = None" "py_lt rt actual expected = None"
    "py_le rt expected actual = None" "py_le rt actual expected = None"
    "\<not> py_eq rt actual expected"
  using assms by (cases expected; cases actual; simp add: py_lt_def py_le_def py_eq_def is_number_def)+

lemma check_value_conditions_eq:
  "check_value_conditions rt sse a p actual vcs (viol, miss, n) =
     (viol @ map (\<lambda>vc. value_violation a p vc actual)
               (filter (\<lambda>vc. \<not> evaluate_condition rt sse vc actual) vcs),
      miss, n + length vcs)"
  by (induction vcs arbitrary: viol n) (simp_all add: Let_def)

lemma evaluate_loop_violations:
  "fst (evaluate_loop rt sse ctx cs (viol, miss, n)) =
     viol @ concat (map (condition_violations rt sse ctx) cs)"
proof (induction cs arbitrary: viol miss n)
  case Nil
  show ?case by simp
next
  case (Cons c cs)
  show ?case
  proof (cases "(case ctx (artifact c) of None \<Rightarrow> Map.empty | Some d \<Rightarrow> d) (property_affordance c)")
    case None
    then show ?thesis by (simp add: Let_def condition_violations_def Cons.IH)
  next
    case (Some actual)
    then show ?thesis
      by (simp add: Let_def condition_violations_def check_value_conditions_eq Cons.IH)
  qed
qed

lemma violations_evaluate:
  "violations (evaluate rt sse conds ctx) = concat (map (condition_violations rt sse ctx) conds)"
proof (cases "conds = []")
  case True
  then show ?thesis by (simp add: evaluate_def)
next
  case False
  obtain viol miss n where e: "evaluate_loop rt sse ctx conds ([], [], 0) = (viol, miss, n)"
    by (cases "evaluate_loop rt sse ctx conds ([], [], 0)") auto
  from evaluate_loop_violations[of rt sse ctx conds "[]" "[]" 0] e
  have "viol = concat (map (condition_violations rt sse ctx) conds)" by simp
  with False e show ?thesis by (simp add: evaluate_def)
qed

lemma sse_pass_evaluate:
  "sse_pass (evaluate rt sse conds ctx) \<longleftrightarrow> violations (evaluate rt sse conds ctx) = []"
  by (cases "conds = []") (auto simp: evaluate_def split: prod.splits)

lemma evaluate_condition_cong:
  "operator v1 = operator v2 \<Longrightarrow> vc_value v1 = vc_value v2 \<Longrightarrow>
     evaluate_condition rt sse v1 actual = evaluate_condition rt sse v2 actual"
  by (simp add: evaluate_condition_def)

lemma value_violation_recorded_iff:
  assumes c: "c \<in> set conds" and a: "ctx (artifact c) = Some d"
    and p: "d (property_affordance c) = Some actual" and vc: "vc \<in> set (value_conditions c)"
    and op: "operator vc \<noteq> ''missing''"
  shows "value_violation (artifact c) (property_affordance c) vc actual
           \<in> set (violations (evaluate rt sse conds ctx))
         \<longleftrightarrow> \<not> evaluate_condition rt sse vc actual"
proof
  assume f: "\<not> evaluate_condition rt sse vc actual"
  from a p vc f have "value_violation (artifact c) (property_affordance c) vc actual
      \<in> set (condition_violations rt sse ctx c)"
    by (simp add: condition_violations_def)
  with c show "value_violation (artifact c) (property_affordance c) vc actual
           \<in> set (violations (evaluate rt sse conds ctx))"
    by (auto simp: violations_evaluate)
next
  let ?v = "value_violation (artifact c) (property_affordance c) vc actual"
  assume "?v \<in> set (violations (evaluate rt sse conds ctx))"
  then obtain c' where c': "c' \<in> set conds" and m: "?v \<in> set (condition_violations rt sse ctx c')"
    by (auto simp: violations_evaluate)
  show "\<not> evaluate_condition rt sse vc actual"
  proof (cases "(case ctx (artifact c') of None \<Rightarrow> Map.empty | Some d \<Rightarrow> d) (property_affordance c')")
    case None
    with m have "?v = missing_violation (artifact c') (property_affordance c')"
      by (simp add: condition_violations_def split: if_splits)
    then have "operator vc = ''missing''"
      by (simp add: value_violation_def missing_violation_def)
    with op show ?thesis by simp
  next
    case (Some actual')
    with m obtain vc' where vc': "vc' \<in> set (value_conditions c')"
      and f: "\<not> evaluate_condition rt sse vc' actual'"
      and e: "?v = value_violation (artifact c') (property_affordance c') vc' actual'"
      by (auto simp: condition_violations_def)
    from e have same: "operator vc = operator vc'" "vc_value vc = vc_value vc'" "actual = actual'"
      by (simp_all add: value_violation_def)
    from f same evaluate_condition_cong[OF same(1) same(2), of rt sse actual]
    show ?thesis by simp
  qed
qed

text \<open>
  Claim C9, as the code has it. When type coercion is enabled and the coercion of the actual
  value fails, \<open>_evaluate_condition\<close> does not raise: the uncoerced actual value is compared
  with the expected number. The condition fails for \<open>greaterThan\<close>, \<open>lessThan\<close>,
  \<open>greaterEqual\<close>, \<open>lessEqual\<close> and \<open>equals\<close>, and it passes for \<open>notEquals\<close>. So when such a
  value condition belongs to a structured condition of the signifier and the context has the
  actual value for the condition's artifact and property, \<open>evaluate\<close> returns a result whose
  violations contain the violation of this value condition (with its artifact, property,
  operator, expected value and actual value) and whose \<open>sse_pass\<close> is false, for each of the
  first five operators; for \<open>notEquals\<close> the violations do not contain it.
\<close>

theorem evaluate_condition_coercion_failure:
  assumes "coercion_fails rt sse (vc_value condition) actual"
  shows "(operator condition \<in> {''greaterThan'', ''lessThan'', ''greaterEqual'', ''lessEqual'', ''equals''}
           \<longrightarrow> \<not> evaluate_condition rt sse condition actual)
       \<and> (operator condition = ''notEquals'' \<longrightarrow> evaluate_condition rt sse condition actual)
       \<and> (c \<in> set conds \<and> ctx (artifact c) = Some d \<and> d (property_affordance c) = Some actual
            \<and> condition \<in> set (value_conditions c) \<longrightarrow>
            (operator condition \<in> {''greaterThan'', ''lessThan'', ''greaterEqual'', ''lessEqual'', ''equals''}
               \<longrightarrow> value_violation (artifact c) (property_affordance c) condition actual
                     \<in> set (violations (evaluate rt sse conds ctx))
                 \<and> \<not> sse_pass (evaluate rt sse conds ctx))
          \<and> (operator condition = ''notEquals''
               \<longrightarrow> value_violation (artifact c) (property_affordance c) condition actual
                     \<notin> set (violations (evaluate rt sse conds ctx))))"
proof -
  from assms have n: "is_number (vc_value condition)" "\<not> is_number actual"
    by (simp_all add: coercion_fails_def)
  have five: "\<not> evaluate_condition rt sse condition actual"
    if "operator condition \<in> {''greaterThan'', ''lessThan'', ''greaterEqual'', ''lessEqual'', ''equals''}"
    using that
    by (auto simp add: evaluate_condition_def Let_def coerce_failed_keeps_actual[OF assms]
        number_against_non_number[OF n])
  have ne: "evaluate_condition rt sse condition actual" if "operator condition = ''notEquals''"
    using that
    by (simp add: evaluate_condition_def Let_def coerce_failed_keeps_actual[OF assms]
        number_against_non_number[OF n])
  have rec: "(operator condition \<in> {''greaterThan'', ''lessThan'', ''greaterEqual'', ''lessEqual'', ''equals''}
               \<longrightarrow> value_violation (artifact c) (property_affordance c) condition actual
                     \<in> set (violations (evaluate rt sse conds ctx))
                 \<and> \<not> sse_pass (evaluate rt sse conds ctx))
          \<and> (operator condition = ''notEquals''
               \<longrightarrow> value_violation (artifact c) (property_affordance c) condition actual
                     \<notin> set (violations (evaluate rt sse conds ctx)))"
    if h: "c \<in> set conds" "ctx (artifact c) = Some d" "d (property_affordance c) = Some actual"
      "condition \<in> set (value_conditions c)"
  proof (intro conjI impI)
    assume o: "operator condition \<in> {''greaterThan'', ''lessThan'', ''greaterEqual'', ''lessEqual'', ''equals''}"
    then have "operator condition \<noteq> ''missing''" by auto
    from value_violation_recorded_iff[where c = c and conds = conds and ctx = ctx and d = d
        and actual = actual and vc = condition and rt = rt and sse = sse, OF h this] five[OF o]
    show in_v: "value_violation (artifact c) (property_affordance c) condition actual
                     \<in> set (violations (evaluate rt sse conds ctx))" by simp
    then have "violations (evaluate rt sse conds ctx) \<noteq> []" by auto
    then show "\<not> sse_pass (evaluate rt sse conds ctx)" by (simp add: sse_pass_evaluate)
  next
    assume o: "operator condition = ''notEquals''"
    then have "operator condition \<noteq> ''missing''" by simp
    from value_violation_recorded_iff[where c = c and conds = conds and ctx = ctx and d = d
        and actual = actual and vc = condition and rt = rt and sse = sse, OF h this] ne[OF o]
    show "value_violation (artifact c) (property_affordance c) condition actual
                     \<notin> set (violations (evaluate rt sse conds ctx))" by simp
  qed
  from five ne rec show ?thesis by blast
qed

lemma abc_coercion_fails: "coercion_fails sample_runtime (sse_with_policy ''fail'') (PyInt 5) (PyStr ''abc'')"
  by (simp add: coercion_fails_def sse_with_policy_def is_number_def py_float_def sample_runtime_def)

text \<open>
  With expected value 5 and actual value \<open>'abc'\<close>, \<open>float('abc')\<close> raises, and the condition
  \<open>notEquals 5\<close> passes: \<open>evaluate\<close> records no violation for it.
\<close>

theorem coercion_failure_notEquals_counterexample: "coercion_fails sample_runtime (sse_with_policy ''fail'') (vc_value (vcond ''notEquals'' (PyInt 5))) (PyStr ''abc'')
  \<and> ''notEquals'' \<in> set allowed_operators
  \<and> evaluate_condition sample_runtime (sse_with_policy ''fail'') (vcond ''notEquals'' (PyInt 5)) (PyStr ''abc'')
  \<and> violations (evaluate sample_runtime (sse_with_policy ''fail'')
       [\<lparr> artifact = ''a'', property_affordance = ''p'', value_conditions = [vcond ''notEquals'' (PyInt 5)] \<rparr>]
       [''a'' \<mapsto> [''p'' \<mapsto> PyStr ''abc'']]) = []"
proof -
  have a: "coercion_fails sample_runtime (sse_with_policy ''fail'') (vc_value (vcond ''notEquals'' (PyInt 5))) (PyStr ''abc'')"
    using abc_coercion_fails by (simp add: vcond_def)
  have b: "''notEquals'' \<in> set allowed_operators" by (simp add: allowed_operators_def)
  have c: "evaluate_condition sample_runtime (sse_with_policy ''fail'') (vcond ''notEquals'' (PyInt 5)) (PyStr ''abc'')"
    by (simp add: vcond_def evaluate_condition_def coerce_def is_number_def is_str_def
     py_float_def sample_runtime_def sse_with_policy_def py_eq_def Let_def)
  have d: "violations (evaluate sample_runtime (sse_with_policy ''fail'')
       [\<lparr> artifact = ''a'', property_affordance = ''p'', value_conditions = [vcond ''notEquals'' (PyInt 5)] \<rparr>]
       [''a'' \<mapsto> [''p'' \<mapsto> PyStr ''abc'']]) = []"
    by (simp add: evaluate_def Let_def c)
  from a b c d show ?thesis by blast
qed

lemma abc_lookup:
  "abc_condition \<in> set [abc_condition]"
  "abc_context (artifact abc_condition) = Some [''p'' \<mapsto> PyStr ''abc'']"
  "[''p'' \<mapsto> PyStr ''abc''] (property_affordance abc_condition) = Some (PyStr ''abc'')"
  "vcond ''greaterThan'' (PyInt 5) \<in> set (value_conditions abc_condition)"
  "vcond ''notEquals'' (PyInt 5) \<in> set (value_conditions abc_condition)"
  by (simp_all add: abc_condition_def abc_context_def)

text \<open>
  A structured condition with the value conditions \<open>greaterThan 5\<close> and \<open>notEquals 5\<close>,
  evaluated in a context where the property has the value \<open>'abc'\<close>: \<open>greaterThan\<close> and
  \<open>equals\<close> fail, \<open>notEquals\<close> passes, and \<open>evaluate\<close> returns \<open>sse_pass = False\<close> with
  exactly one violation, the one of \<open>greaterThan 5\<close>.
\<close>

theorem evaluate_condition_coercion_failure_witness:
  "\<not> evaluate_condition sample_runtime (sse_with_policy ''fail'') (vcond ''greaterThan'' (PyInt 5)) (PyStr ''abc'')
  \<and> \<not> evaluate_condition sample_runtime (sse_with_policy ''fail'') (vcond ''equals'' (PyInt 5)) (PyStr ''abc'')
  \<and> evaluate_condition sample_runtime (sse_with_policy ''fail'') (vcond ''notEquals'' (PyInt 5)) (PyStr ''abc'')
  \<and> violations (evaluate sample_runtime (sse_with_policy ''fail'') [abc_condition] abc_context)
      = [value_violation ''a'' ''p'' (vcond ''greaterThan'' (PyInt 5)) (PyStr ''abc'')]
  \<and> \<not> sse_pass (evaluate sample_runtime (sse_with_policy ''fail'') [abc_condition] abc_context)"
proof -
  let ?sse = "sse_with_policy ''fail''"
  note gt = evaluate_condition_coercion_failure
      [where rt = sample_runtime and sse = ?sse and condition = "vcond ''greaterThan'' (PyInt 5)"
         and actual = "PyStr ''abc''" and c = abc_condition and conds = "[abc_condition]"
         and ctx = abc_context and d = "[''p'' \<mapsto> PyStr ''abc'']"]
  note eq = evaluate_condition_coercion_failure
      [where rt = sample_runtime and sse = ?sse and condition = "vcond ''equals'' (PyInt 5)"
         and actual = "PyStr ''abc''" and c = abc_condition and conds = "[abc_condition]"
         and ctx = abc_context and d = "[''p'' \<mapsto> PyStr ''abc'']"]
  note ne = evaluate_condition_coercion_failure
      [where rt = sample_runtime and sse = ?sse and condition = "vcond ''notEquals'' (PyInt 5)"
         and actual = "PyStr ''abc''" and c = abc_condition and conds = "[abc_condition]"
         and ctx = abc_context and d = "[''p'' \<mapsto> PyStr ''abc'']"]
  have f: "coercion_fails sample_runtime ?sse (vc_value (vcond op (PyInt 5))) (PyStr ''abc'')" for op
    using abc_coercion_fails by (simp add: vcond_def)
  have o: "operator (vcond op (PyInt 5)) = op" for op by (simp add: vcond_def)
  have a: "\<not> evaluate_condition sample_runtime ?sse (vcond ''greaterThan'' (PyInt 5)) (PyStr ''abc'')"
    using gt[OF f] by (simp add: o)
  have b: "\<not> evaluate_condition sample_runtime ?sse (vcond ''equals'' (PyInt 5)) (PyStr ''abc'')"
    using eq[OF f] by (simp add: o)
  have c: "evaluate_condition sample_runtime ?sse (vcond ''notEquals'' (PyInt 5)) (PyStr ''abc'')"
    using ne[OF f] by (simp add: o)
  have d: "violations (evaluate sample_runtime ?sse [abc_condition] abc_context)
      = [value_violation ''a'' ''p'' (vcond ''greaterThan'' (PyInt 5)) (PyStr ''abc'')]"
    by (simp add: violations_evaluate condition_violations_def abc_condition_def
        abc_context_def a c)
  have e: "\<not> sse_pass (evaluate sample_runtime ?sse [abc_condition] abc_context)"
    using gt[OF f] abc_lookup by (simp add: o)
  from a b c d e show ?thesis by blast
qed
section \<open>Properties of the intent matcher v0\<close>

lemma findall_words_chars:
  assumes "t \<in> set (findall_words s cur)" "\<forall>c \<in> set cur. is_word_char c \<and> P c" "\<forall>c \<in> set s. P c"
  shows "\<forall>c \<in> set t. is_word_char c \<and> P c"
  using assms
proof (induction s cur rule: findall_words.induct)
  case (1 cur)
  then show ?case by (simp split: if_splits)
next
  case (2 c cs cur)
  show ?case
  proof (cases "is_word_char c")
    case True
    with "2.prems" have a: "t \<in> set (findall_words cs (cur @ [c]))" by simp
    from "2.prems" True have b: "\<forall>x \<in> set (cur @ [c]). is_word_char x \<and> P x" by simp
    from "2.prems" have c: "\<forall>x \<in> set cs. P x" by simp
    from "2.IH"(1)[OF True a b c] show ?thesis .
  next
    case False
    from "2.prems" have c: "\<forall>x \<in> set cs. P x" by simp
    show ?thesis
    proof (cases "cur = []")
      case True
      with False "2.prems" have a: "t \<in> set (findall_words cs [])" by simp
      from "2.IH"(2)[OF False True a _ c] show ?thesis by simp
    next
      case ne: False
      with False "2.prems" have "t = cur \<or> t \<in> set (findall_words cs [])" by simp
      then show ?thesis
      proof
        assume "t = cur" with "2.prems" show ?thesis by simp
      next
        assume a: "t \<in> set (findall_words cs [])"
        from "2.IH"(3)[OF False ne a _ c] show ?thesis by simp
      qed
    qed
  qed
qed

lemma of_char_lower:
  "is_upper c \<Longrightarrow> (of_char (lower_char c) :: nat) = of_char c + 32"
  by (simp add: lower_char_def is_upper_def Let_def) auto

lemma lower_char_not_upper: "\<not> is_upper (lower_char c)"
proof (cases "is_upper c")
  case True
  with of_char_lower[OF True] show ?thesis
    by (simp add: is_upper_def[of "lower_char c"] Let_def) (auto simp: is_upper_def Let_def)
next
  case False
  then show ?thesis by (simp add: lower_char_def)
qed

lemma tokenize_tokens:
  assumes "t \<in> set (tokenize text cs)"
  shows "2 < length t \<and> (\<forall>c \<in> set t. is_word_char c) \<and> (\<not> cs \<longrightarrow> (\<forall>c \<in> set t. \<not> is_upper c))"
proof -
  let ?text = "if cs then text else lower text"
  from assms have len: "2 < length t" and mem: "t \<in> set (findall_words ?text [])"
    by (simp_all add: tokenize_def Let_def)
  have w: "\<forall>c \<in> set t. is_word_char c \<and> True"
    by (rule findall_words_chars[OF mem]) simp_all
  have u: "\<forall>c \<in> set t. is_word_char c \<and> \<not> is_upper c" if "\<not> cs"
  proof (rule findall_words_chars[OF mem])
    show "\<forall>c\<in>set []. is_word_char c \<and> \<not> is_upper c" by simp
    show "\<forall>c\<in>set ?text. \<not> is_upper c" using that by (auto simp: lower_def lower_char_not_upper)
  qed
  from len w u show ?thesis by blast
qed

lemma compute_similarity_formula:
  "compute_similarity rt Q sd cs =
     (if Q = [] then 0
      else real (length (filter (\<lambda>t. t \<in> set (signifier_tokens rt sd cs)) Q)) / real (length Q))"
  by (cases "signifier_tokens rt sd cs = []") (simp_all add: compute_similarity_def Let_def)

lemma distinct_count: "distinct Q \<Longrightarrow> length (filter P Q) = card {t \<in> set Q. P t}"
proof -
  assume d: "distinct Q"
  then have "distinct (filter P Q)" by simp
  then have "card (set (filter P Q)) = length (filter P Q)" by (rule distinct_card)
  then show ?thesis by (simp add: set_filter)
qed

lemma match_loop_filter:
  "match_loop rt Q cs sds =
     map (match_result rt Q cs) (filter (\<lambda>sd. 0 < compute_similarity rt Q sd cs) sds)"
  by (induction sds) (simp_all add: Let_def)

lemma similarity_match_result:
  "similarity (match_result rt Q cs sd) = compute_similarity rt Q sd cs"
  by (simp add: match_result_def)

lemma set_slice_to: "set (slice_to k xs) \<subseteq> set xs"
  by (auto simp: slice_to_def dest: in_set_takeD)

lemma slice_to_whole: "int (length xs) \<le> k \<Longrightarrow> slice_to k xs = xs"
  by (simp add: slice_to_def)

lemma no_shared_zero:
  assumes "\<forall>t \<in> set Q. t \<notin> set (signifier_tokens rt sd cs)"
  shows "compute_similarity rt Q sd cs = 0"
proof -
  from assms have "filter (\<lambda>t. t \<in> set (signifier_tokens rt sd cs)) Q = []"
    by (simp add: filter_empty_conv)
  then show ?thesis by (simp add: compute_similarity_formula)
qed

lemma positive_shares_token:
  assumes "0 < compute_similarity rt Q sd cs"
  shows "\<exists>t \<in> set Q. t \<in> set (signifier_tokens rt sd cs)"
proof (rule ccontr)
  assume "\<not> ?thesis"
  then have "compute_similarity rt Q sd cs = 0" by (intro no_shared_zero) blast
  with assms show False by simp
qed

lemma shares_token_positive:
  assumes "t \<in> set Q" "t \<in> set (signifier_tokens rt sd cs)"
  shows "0 < compute_similarity rt Q sd cs"
proof -
  from assms have "filter (\<lambda>t. t \<in> set (signifier_tokens rt sd cs)) Q \<noteq> []"
    by (auto simp: filter_empty_conv)
  moreover from assms have "Q \<noteq> []" by auto
  ultimately show ?thesis by (simp add: compute_similarity_formula)
qed

lemma count_eq_card_iff:
  "length (filter P Q) = card {t \<in> set Q. P t} \<longleftrightarrow> distinct (filter P Q)"
proof
  assume "length (filter P Q) = card {t \<in> set Q. P t}"
  then have "card (set (filter P Q)) = length (filter P Q)" by (simp add: set_filter)
  then show "distinct (filter P Q)" by (rule card_distinct)
next
  assume "distinct (filter P Q)"
  then have "card (set (filter P Q)) = length (filter P Q)" by (rule distinct_card)
  then show "length (filter P Q) = card {t \<in> set Q. P t}" by (simp add: set_filter)
qed

text \<open>
  Claim C6, as the code has it. With \<open>Q\<close> the token sequence of the query and \<open>S\<close> the tokens of
  the signifier (its \<open>nl_text\<close> and the string form of a non-empty \<open>structured\<close> field), IM v0
  computes the similarity as the number of positions of \<open>Q\<close> whose token is in \<open>S\<close>, divided
  by the length of \<open>Q\<close> (and 0 when \<open>Q\<close> has no token): a token that occurs twice in the query
  and matches is counted twice. For a query without repeated tokens this is
  \<open>|{t \<in> Q : t \<in> S}| / |Q|\<close>; for a query with at least one token, the similarity equals
  \<open>|{t \<in> Q : t \<in> S}| / |Q|\<close> exactly when no token of the signifier occurs more than once in
  \<open>Q\<close>. Every token has at least three characters, all of them word characters, and none of
  them upper case unless \<open>case_sensitive\<close> is set.
\<close>

theorem compute_similarity_counts_occurrences:
  "compute_similarity rt (tokenize query cs) sd cs =
     (if tokenize query cs = [] then 0
      else real (length (filter (\<lambda>t. t \<in> set (signifier_tokens rt sd cs)) (tokenize query cs)))
           / real (length (tokenize query cs)))
   \<and> (distinct (tokenize query cs) \<and> tokenize query cs \<noteq> [] \<longrightarrow>
        compute_similarity rt (tokenize query cs) sd cs
          = spec_similarity_distinct (tokenize query cs) (set (signifier_tokens rt sd cs)))
   \<and> (tokenize query cs \<noteq> [] \<longrightarrow>
        (compute_similarity rt (tokenize query cs) sd cs
           = spec_similarity_distinct (tokenize query cs) (set (signifier_tokens rt sd cs))
         \<longleftrightarrow> distinct (filter (\<lambda>t. t \<in> set (signifier_tokens rt sd cs)) (tokenize query cs))))
   \<and> (\<forall>t \<in> set (tokenize query cs) \<union> set (signifier_tokens rt sd cs).
        2 < length t \<and> (\<forall>c \<in> set t. is_word_char c) \<and> (\<not> cs \<longrightarrow> (\<forall>c \<in> set t. \<not> is_upper c)))"
proof -
  let ?Q = "tokenize query cs"
  let ?S = "signifier_tokens rt sd cs"
  have formula: "compute_similarity rt ?Q sd cs =
     (if ?Q = [] then 0
      else real (length (filter (\<lambda>t. t \<in> set ?S) ?Q)) / real (length ?Q))"
    by (rule compute_similarity_formula)
  have dist: "compute_similarity rt ?Q sd cs = spec_similarity_distinct ?Q (set ?S)"
    if "distinct ?Q" "?Q \<noteq> []"
    using that
    by (simp add: compute_similarity_formula spec_similarity_distinct_def distinct_count)
  have exact: "compute_similarity rt ?Q sd cs = spec_similarity_distinct ?Q (set ?S)
         \<longleftrightarrow> distinct (filter (\<lambda>t. t \<in> set ?S) ?Q)"
    if ne: "?Q \<noteq> []"
  proof -
    from ne have pos: "real (length ?Q) \<noteq> 0" by simp
    have "compute_similarity rt ?Q sd cs = spec_similarity_distinct ?Q (set ?S)
       \<longleftrightarrow> real (length (filter (\<lambda>t. t \<in> set ?S) ?Q)) / real (length ?Q)
           = real (card {t \<in> set ?Q. t \<in> set ?S}) / real (length ?Q)"
      using ne by (simp add: compute_similarity_formula spec_similarity_distinct_def)
    also have "\<dots> \<longleftrightarrow> length (filter (\<lambda>t. t \<in> set ?S) ?Q) = card {t \<in> set ?Q. t \<in> set ?S}"
      using pos by simp
    also have "\<dots> \<longleftrightarrow> distinct (filter (\<lambda>t. t \<in> set ?S) ?Q)"
      by (rule count_eq_card_iff)
    finally show ?thesis .
  qed
  have toks: "2 < length t \<and> (\<forall>c \<in> set t. is_word_char c) \<and> (\<not> cs \<longrightarrow> (\<forall>c \<in> set t. \<not> is_upper c))"
    if "t \<in> set ?Q \<union> set ?S" for t
  proof -
    from that obtain tx where "t \<in> set (tokenize tx cs)"
      by (auto simp: signifier_tokens_def Let_def)
    then show ?thesis by (rule tokenize_tokens)
  qed
  from formula dist exact toks show ?thesis by blast
qed

lemma tokenize_turn_the_light_on:
  "tokenize ''Turn the light ON'' False = [''turn'', ''the'', ''light'']"
  by code_simp

lemma tokenize_light_light: "tokenize ''light light'' False = [''light'', ''light'']"
  by code_simp

lemma tokenize_foo_foo_light:
  "tokenize ''foo foo light'' False = [''foo'', ''foo'', ''light'']"
  by code_simp

lemma tokenize_increase_luminosity:
  "tokenize ''Increase luminosity'' False = [''increase'', ''luminosity'']"
  by code_simp

lemma signifier_tokens_light:
  "signifier_tokens sample_runtime (sdict ''s1'' ''light'') False = [''light'']"
  by code_simp

lemma signifier_tokens_verb:
  "signifier_tokens sample_runtime sdict_verb False
     = [''raise'', ''blinds'', ''verb'', ''increase'']"
  by code_simp

text \<open>Characters outside ASCII: \<open>CAF\<close> followed by a capital E with acute accent is one token,
  lowercased to \<open>caf\<close> followed by the small e with acute accent.\<close>

lemma tokenize_latin1:
  "tokenize (''un CAF'' @ [CHR 0xC9]) False = [''caf'' @ [CHR 0xE9]]"
  by code_simp

text \<open>The query ``Turn the light ON'' has the three tokens turn, the, light; against a
  signifier whose text is ``light'' the similarity is 1/3. The query ``foo foo light'' repeats
  a token that does not match: the similarity is 1/3, which is also the value of the formula
  with distinct tokens. The query ``Increase luminosity'' against a signifier whose text is
  ``raise blinds'' and whose structured field is \<open>{'verb': 'increase'}\<close> has the similarity 1/2:
  the only matching token comes from the structured field.\<close>

theorem compute_similarity_counts_occurrences_witness:
  "compute_similarity sample_runtime (tokenize ''Turn the light ON'' False)
       (sdict ''s1'' ''light'') False = 1 / 3
   \<and> spec_similarity_distinct (tokenize ''Turn the light ON'' False)
       (set (signifier_tokens sample_runtime (sdict ''s1'' ''light'') False)) = 1 / 3
   \<and> compute_similarity sample_runtime (tokenize ''foo foo light'' False)
       (sdict ''s1'' ''light'') False = 1 / 3
   \<and> spec_similarity_distinct (tokenize ''foo foo light'' False)
       (set (signifier_tokens sample_runtime (sdict ''s1'' ''light'') False)) = 1 / 3
   \<and> compute_similarity sample_runtime (tokenize ''Increase luminosity'' False)
       sdict_verb False = 1 / 2
   \<and> spec_similarity_distinct (tokenize ''Increase luminosity'' False)
       (set (signifier_tokens sample_runtime sdict_verb False)) = 1 / 2
   \<and> 2 < length ''light'' \<and> list_all is_word_char ''light''
   \<and> list_all (\<lambda>c. \<not> is_upper c) ''light''"
proof -
  note a = compute_similarity_counts_occurrences
          [of sample_runtime "''Turn the light ON''" False "sdict ''s1'' ''light''"]
  note b = compute_similarity_counts_occurrences
          [of sample_runtime "''foo foo light''" False "sdict ''s1'' ''light''"]
  note c = compute_similarity_counts_occurrences
          [of sample_runtime "''Increase luminosity''" False sdict_verb]
  have a1: "compute_similarity sample_runtime (tokenize ''Turn the light ON'' False)
       (sdict ''s1'' ''light'') False = 1 / 3"
    using a by (simp add: tokenize_turn_the_light_on signifier_tokens_light)
  have a2: "spec_similarity_distinct (tokenize ''Turn the light ON'' False)
       (set (signifier_tokens sample_runtime (sdict ''s1'' ''light'') False)) = 1 / 3"
    using a a1 by (simp add: tokenize_turn_the_light_on signifier_tokens_light)
  have a3: "2 < length ''light'' \<and> list_all is_word_char ''light''
       \<and> list_all (\<lambda>c. \<not> is_upper c) ''light''"
    using a by (simp add: tokenize_turn_the_light_on signifier_tokens_light list_all_iff)
  have b1: "compute_similarity sample_runtime (tokenize ''foo foo light'' False)
       (sdict ''s1'' ''light'') False = 1 / 3"
    using b by (simp add: tokenize_foo_foo_light signifier_tokens_light)
  have b2: "spec_similarity_distinct (tokenize ''foo foo light'' False)
       (set (signifier_tokens sample_runtime (sdict ''s1'' ''light'') False)) = 1 / 3"
    using b b1 by (simp add: tokenize_foo_foo_light signifier_tokens_light)
  have c1: "compute_similarity sample_runtime (tokenize ''Increase luminosity'' False)
       sdict_verb False = 1 / 2"
    using c by (simp add: tokenize_increase_luminosity signifier_tokens_verb)
  have c2: "spec_similarity_distinct (tokenize ''Increase luminosity'' False)
       (set (signifier_tokens sample_runtime sdict_verb False)) = 1 / 2"
    using c c1 by (simp add: tokenize_increase_luminosity signifier_tokens_verb)
  from a1 a2 a3 b1 b2 c1 c2 show ?thesis by blast
qed

text \<open>
  The query ``light light'' has the token light twice. Against a signifier whose only token is
  light the code computes 2/2 = 1; one distinct matched token over the length of \<open>Q\<close> is 1/2.
\<close>

theorem similarity_duplicate_token_counterexample:
  "compute_similarity sample_runtime (tokenize ''light light'' False)
       (sdict ''s1'' ''light'') False = 1
   \<and> spec_similarity_distinct (tokenize ''light light'' False)
       (set (signifier_tokens sample_runtime (sdict ''s1'' ''light'') False)) = 1 / 2"
proof -
  have "{t. t = ''light''} = {''light''}" by auto
  then show ?thesis
    by (simp add: tokenize_light_light signifier_tokens_light compute_similarity_def
        spec_similarity_distinct_def Let_def)
qed

text \<open>
  Claim C10. For every non-empty query and every signifier list, \<open>match\<close> of IM v0 returns
  (it does not raise). What it returns is the first \<open>k\<close> elements of the results built for
  the signifiers whose similarity is strictly greater than 0, sorted by descending similarity.
  So every result has a similarity strictly greater than 0 and is the result of a signifier of
  the input, with that signifier's id and its computed similarity, and that signifier shares a
  token with the query. A signifier that shares no token with the query (in particular one
  without any token) has the similarity 0 and its result is not in the output; an id all of
  whose signifiers share no token with the query is not reported at all. When no signifier
  shares a token with the query, the returned list is empty. When \<open>k\<close> is at least the number
  of signifiers, the results are exactly those of the signifiers that share a token with the
  query.
\<close>

theorem match_v0_positive_only:
  assumes "query \<noteq> []"
  shows "\<exists>rs. match_v0 rt query sds k cs = Inr rs
     \<and> rs = slice_to k (sort_key (\<lambda>x. - similarity x)
              (map (match_result rt (tokenize query cs) cs)
                 (filter (\<lambda>sd. 0 < compute_similarity rt (tokenize query cs) sd cs) sds)))
     \<and> (\<forall>r \<in> set rs. 0 < similarity r)
     \<and> (\<forall>r \<in> set rs. \<exists>sd \<in> set sds.
            r = match_result rt (tokenize query cs) cs sd
          \<and> similarity r = compute_similarity rt (tokenize query cs) sd cs
          \<and> 0 < compute_similarity rt (tokenize query cs) sd cs
          \<and> (\<exists>t \<in> set (tokenize query cs). t \<in> set (signifier_tokens rt sd cs)))
     \<and> (\<forall>sd \<in> set sds.
            (\<forall>t \<in> set (tokenize query cs). t \<notin> set (signifier_tokens rt sd cs))
            \<longrightarrow> compute_similarity rt (tokenize query cs) sd cs = 0
              \<and> match_result rt (tokenize query cs) cs sd \<notin> set rs)
     \<and> (\<forall>i. (\<forall>sd \<in> set sds.
                 mr_signifier_id (match_result rt (tokenize query cs) cs sd) = i
                 \<longrightarrow> (\<forall>t \<in> set (tokenize query cs). t \<notin> set (signifier_tokens rt sd cs)))
             \<longrightarrow> (\<forall>r \<in> set rs. mr_signifier_id r \<noteq> i))
     \<and> (int (length sds) \<le> k \<longrightarrow>
          set rs = match_result rt (tokenize query cs) cs `
                     {sd \<in> set sds. \<exists>t \<in> set (tokenize query cs).
                                       t \<in> set (signifier_tokens rt sd cs)})
     \<and> ((\<forall>sd \<in> set sds. \<forall>t \<in> set (tokenize query cs). t \<notin> set (signifier_tokens rt sd cs))
          \<longrightarrow> rs = [])"
proof -
  let ?Q = "tokenize query cs"
  let ?pos = "filter (\<lambda>sd. 0 < compute_similarity rt ?Q sd cs) sds"
  let ?all = "sort_key (\<lambda>x. - similarity x) (map (match_result rt ?Q cs) ?pos)"
  let ?rs = "slice_to k ?all"
  have eq: "match_v0 rt query sds k cs = Inr ?rs"
  proof (cases "sds = []")
    case True
    with assms show ?thesis by (simp add: match_v0_def slice_to_def)
  next
    case False
    with assms show ?thesis by (simp add: match_v0_def Let_def match_loop_filter)
  qed
  have sub: "set ?rs \<subseteq> match_result rt ?Q cs ` set ?pos"
    using set_slice_to[of k ?all] by simp
  have link: "\<exists>sd \<in> set sds. r = match_result rt ?Q cs sd
          \<and> similarity r = compute_similarity rt ?Q sd cs
          \<and> 0 < compute_similarity rt ?Q sd cs
          \<and> (\<exists>t \<in> set ?Q. t \<in> set (signifier_tokens rt sd cs))"
    if "r \<in> set ?rs" for r
  proof -
    from that sub obtain sd where sd: "sd \<in> set ?pos" "r = match_result rt ?Q cs sd" by blast
    then have p: "0 < compute_similarity rt ?Q sd cs" and m: "sd \<in> set sds" by simp_all
    from p have "\<exists>t \<in> set ?Q. t \<in> set (signifier_tokens rt sd cs)"
      by (rule positive_shares_token)
    with sd p m show ?thesis by (auto simp: similarity_match_result)
  qed
  have pos: "0 < similarity r" if "r \<in> set ?rs" for r
    using link[OF that] by auto
  have omit: "compute_similarity rt ?Q sd cs = 0 \<and> match_result rt ?Q cs sd \<notin> set ?rs"
    if "\<forall>t \<in> set ?Q. t \<notin> set (signifier_tokens rt sd cs)" for sd
  proof -
    from that have z: "compute_similarity rt ?Q sd cs = 0" by (rule no_shared_zero)
    have "match_result rt ?Q cs sd \<notin> set ?rs"
    proof
      assume "match_result rt ?Q cs sd \<in> set ?rs"
      then have "0 < similarity (match_result rt ?Q cs sd)" by (rule pos)
      with z show False by (simp add: similarity_match_result)
    qed
    with z show ?thesis by simp
  qed
  have ids: "mr_signifier_id r \<noteq> i"
    if h: "\<forall>sd \<in> set sds. mr_signifier_id (match_result rt ?Q cs sd) = i
                 \<longrightarrow> (\<forall>t \<in> set ?Q. t \<notin> set (signifier_tokens rt sd cs))"
      and r: "r \<in> set ?rs" for i r
  proof
    assume e: "mr_signifier_id r = i"
    from link[OF r] obtain sd t where "sd \<in> set sds" "r = match_result rt ?Q cs sd"
      "t \<in> set ?Q" "t \<in> set (signifier_tokens rt sd cs)" by blast
    with h e show False by blast
  qed
  have full: "set ?rs = match_result rt ?Q cs `
                     {sd \<in> set sds. \<exists>t \<in> set ?Q. t \<in> set (signifier_tokens rt sd cs)}"
    if "int (length sds) \<le> k"
  proof -
    have "length ?all \<le> length sds" by simp
    with that have "int (length ?all) \<le> k" by linarith
    then have "?rs = ?all" by (rule slice_to_whole)
    then have "set ?rs = match_result rt ?Q cs ` set ?pos" by simp
    moreover have "set ?pos = {sd \<in> set sds. \<exists>t \<in> set ?Q. t \<in> set (signifier_tokens rt sd cs)}"
      by (auto dest: positive_shares_token intro: shares_token_positive)
    ultimately show ?thesis by simp
  qed
  have none: "?rs = []"
    if "\<forall>sd \<in> set sds. \<forall>t \<in> set ?Q. t \<notin> set (signifier_tokens rt sd cs)"
  proof -
    from that have "\<forall>sd \<in> set sds. compute_similarity rt ?Q sd cs = 0"
      by (simp add: no_shared_zero)
    then have "?pos = []" by (simp add: filter_empty_conv)
    then show ?thesis by (simp add: slice_to_def)
  qed
  show ?thesis
  proof (intro exI[of _ ?rs] conjI)
    show "match_v0 rt query sds k cs = Inr ?rs" by (rule eq)
    show "?rs = ?rs" by (rule refl)
    show "\<forall>r \<in> set ?rs. 0 < similarity r" using pos by blast
    show "\<forall>r \<in> set ?rs. \<exists>sd \<in> set sds.
            r = match_result rt ?Q cs sd
          \<and> similarity r = compute_similarity rt ?Q sd cs
          \<and> 0 < compute_similarity rt ?Q sd cs
          \<and> (\<exists>t \<in> set ?Q. t \<in> set (signifier_tokens rt sd cs))"
      using link by blast
    show "\<forall>sd \<in> set sds. (\<forall>t \<in> set ?Q. t \<notin> set (signifier_tokens rt sd cs))
            \<longrightarrow> compute_similarity rt ?Q sd cs = 0 \<and> match_result rt ?Q cs sd \<notin> set ?rs"
      using omit by blast
    show "\<forall>i. (\<forall>sd \<in> set sds. mr_signifier_id (match_result rt ?Q cs sd) = i
                 \<longrightarrow> (\<forall>t \<in> set ?Q. t \<notin> set (signifier_tokens rt sd cs)))
             \<longrightarrow> (\<forall>r \<in> set ?rs. mr_signifier_id r \<noteq> i)"
      using ids by blast
    show "int (length sds) \<le> k \<longrightarrow>
          set ?rs = match_result rt ?Q cs `
                     {sd \<in> set sds. \<exists>t \<in> set ?Q. t \<in> set (signifier_tokens rt sd cs)}"
      using full by blast
    show "(\<forall>sd \<in> set sds. \<forall>t \<in> set ?Q. t \<notin> set (signifier_tokens rt sd cs)) \<longrightarrow> ?rs = []"
      using none by blast
  qed
qed

lemma sd_signifier_id_sdict: "sd_signifier_id (sdict i t) = Some i"
  by (simp add: sdict_def)

lemma tokenize_brew_coffee: "tokenize ''brew coffee'' False = [''brew'', ''coffee'']"
  by code_simp

lemma tokenize_increase_the_luminosity:
  "tokenize ''increase the luminosity'' False = [''increase'', ''the'', ''luminosity'']"
  by code_simp

lemma signifier_tokens_raise_blinds:
  "signifier_tokens sample_runtime
     (sdict ''raise-blinds-signifier'' ''increase luminosity in a room'') False
   = [''increase'', ''luminosity'', ''room'']"
  by code_simp

lemma signifier_tokens_brew:
  "signifier_tokens sample_runtime (sdict ''coffee-signifier'' ''brew a coffee'') False
   = [''brew'', ''coffee'']"
  by code_simp

lemma signifier_tokens_no_token:
  "signifier_tokens sample_runtime (sdict ''mute-signifier'' ''go on'') False = []"
  by code_simp

text \<open>Scenario ``brew coffee'': no signifier matches and the result is empty. Scenario
  ``increase the luminosity'' with three signifiers: only the signifier that shares tokens with
  the query is reported, with its id, the similarity 2/3 and the two matched tokens; the
  signifier about coffee and the signifier without any token are omitted.\<close>

theorem match_v0_positive_only_witness:
  "match_v0 sample_runtime ''brew coffee''
     [sdict ''raise-blinds-signifier'' ''increase luminosity in a room''] 10 False = Inr []
   \<and> match_v0 sample_runtime ''increase the luminosity''
       [sdict ''coffee-signifier'' ''brew a coffee'',
        sdict ''raise-blinds-signifier'' ''increase luminosity in a room'',
        sdict ''mute-signifier'' ''go on''] 10 False
     = Inr [\<lparr> mr_signifier_id = ''raise-blinds-signifier'', similarity = 2 / 3,
              matched_tokens = [''increase'', ''luminosity''] \<rparr>]"
proof -
  have a: "match_v0 sample_runtime ''brew coffee''
     [sdict ''raise-blinds-signifier'' ''increase luminosity in a room''] 10 False = Inr []"
    using match_v0_positive_only
          [of "''brew coffee''" sample_runtime
              "[sdict ''raise-blinds-signifier'' ''increase luminosity in a room'']" 10 False]
    by (auto simp: tokenize_brew_coffee signifier_tokens_raise_blinds)
  have s1: "compute_similarity sample_runtime [''increase'', ''the'', ''luminosity'']
              (sdict ''coffee-signifier'' ''brew a coffee'') False = 0"
    by (simp add: compute_similarity_formula signifier_tokens_brew)
  have s2: "compute_similarity sample_runtime [''increase'', ''the'', ''luminosity'']
              (sdict ''raise-blinds-signifier'' ''increase luminosity in a room'') False = 2 / 3"
    by (simp add: compute_similarity_formula signifier_tokens_raise_blinds)
  have s3: "compute_similarity sample_runtime [''increase'', ''the'', ''luminosity'']
              (sdict ''mute-signifier'' ''go on'') False = 0"
    by (simp add: compute_similarity_formula signifier_tokens_no_token)
  have m: "match_result sample_runtime [''increase'', ''the'', ''luminosity''] False
              (sdict ''raise-blinds-signifier'' ''increase luminosity in a room'')
           = \<lparr> mr_signifier_id = ''raise-blinds-signifier'', similarity = 2 / 3,
               matched_tokens = [''increase'', ''luminosity''] \<rparr>"
    by (simp add: match_result_def s2 get_matched_tokens_def signifier_tokens_raise_blinds
        sd_signifier_id_sdict)
  have b: "match_v0 sample_runtime ''increase the luminosity''
       [sdict ''coffee-signifier'' ''brew a coffee'',
        sdict ''raise-blinds-signifier'' ''increase luminosity in a room'',
        sdict ''mute-signifier'' ''go on''] 10 False
     = Inr [\<lparr> mr_signifier_id = ''raise-blinds-signifier'', similarity = 2 / 3,
              matched_tokens = [''increase'', ''luminosity''] \<rparr>]"
    using match_v0_positive_only
          [of "''increase the luminosity''" sample_runtime
              "[sdict ''coffee-signifier'' ''brew a coffee'',
                sdict ''raise-blinds-signifier'' ''increase luminosity in a room'',
                sdict ''mute-signifier'' ''go on'']" 10 False]
    by (simp add: tokenize_increase_the_luminosity s1 s2 s3 m slice_to_def)
  from a b show ?thesis by simp
qed
section \<open>Properties of the representation service\<close>

lemma objects_nonempty_uses: "objects g s p \<noteq> [] \<Longrightarrow> uses_predicate g p"
  by (auto simp: objects_def uses_predicate_def list_ex_iff filter_empty_conv)

lemma subjects_nonempty_typing:
  "subjects g RDF_type (CASHMERE ''Signifier'') \<noteq> [] \<Longrightarrow> has_signifier_typing g"
  by (auto simp: subjects_def has_signifier_typing_def list_ex_iff filter_empty_conv)

lemma graph_value_None: "objects g s p = [] \<Longrightarrow> \<not> node_truthy (graph_value g s p)"
  by (simp add: graph_value_def node_truthy_def)

lemma graph_value_hd: "objects g s p = x # xs \<Longrightarrow> graph_value g s p = Some x"
  by (simp add: graph_value_def)

lemma parse_graph_InrD:
  assumes "parse_graph rt g = Inr s"
  shows "\<exists>n ns. subjects g RDF_type (CASHMERE ''Signifier'') = n # ns
     \<and> node_truthy (graph_value g n (CASHMERE ''signifies''))
     \<and> node_truthy (graph_value g n (CASHMERE ''hasIntentionDescription''))
     \<and> node_truthy (graph_value g (the (graph_value g n (CASHMERE ''hasIntentionDescription'')))
                       (CASHMERE ''hasStructuredDescription''))
     \<and> parse_context rt g n = Some (intent_context s)"
proof (cases "subjects g RDF_type (CASHMERE ''Signifier'')")
  case Nil
  with assms show ?thesis by (simp add: parse_graph_def)
next
  case (Cons n ns)
  with assms show ?thesis
    by (auto simp: parse_graph_def Let_def split: if_splits option.splits json.splits)
qed

lemma truthy_objects: "node_truthy (graph_value g s p) \<Longrightarrow> objects g s p \<noteq> []"
  using graph_value_None by blast

lemma parse_graph_needs_mandatory:
  assumes "parse_graph rt g = Inr s"
  shows "mandatory_present g"
proof -
  from parse_graph_InrD[OF assms] obtain n ns where
    subj: "subjects g RDF_type (CASHMERE ''Signifier'') = n # ns"
    and a: "node_truthy (graph_value g n (CASHMERE ''signifies''))"
    and b: "node_truthy (graph_value g n (CASHMERE ''hasIntentionDescription''))"
    and c: "node_truthy (graph_value g (the (graph_value g n (CASHMERE ''hasIntentionDescription'')))
                       (CASHMERE ''hasStructuredDescription''))"
    by blast
  from b obtain i rest where i: "objects g n (CASHMERE ''hasIntentionDescription'') = i # rest"
    using truthy_objects by (cases "objects g n (CASHMERE ''hasIntentionDescription'')") auto
  then have "graph_value g n (CASHMERE ''hasIntentionDescription'') = Some i"
    by (rule graph_value_hd)
  with c have "objects g i (CASHMERE ''hasStructuredDescription'') \<noteq> []"
    using truthy_objects by fastforce
  with subj i truthy_objects[OF a] show ?thesis by (simp add: mandatory_present_def)
qed

lemma parse_graph_error: "parse_graph rt g = Inl e \<Longrightarrow> e = InvalidRDF"
  by (auto simp: parse_graph_def Let_def split: list.splits if_splits option.splits json.splits)

lemma parse_graph_fails_without_mandatory:
  assumes "\<not> mandatory_present g"
  shows "parse_graph rt g = Inl InvalidRDF"
proof (cases "parse_graph rt g")
  case (Inl e)
  then show ?thesis using parse_graph_error by blast
next
  case (Inr s)
  then have "mandatory_present g" by (rule parse_graph_needs_mandatory)
  with assms show ?thesis by simp
qed

lemma mandatory_present_uses:
  assumes "mandatory_present g"
  shows "has_signifier_typing g" "uses_predicate g (CASHMERE ''signifies'')"
    "uses_predicate g (CASHMERE ''hasIntentionDescription'')"
    "uses_predicate g (CASHMERE ''hasStructuredDescription'')"
proof -
  from assms obtain n ns where subj: "subjects g RDF_type (CASHMERE ''Signifier'') = n # ns"
    by (auto simp: mandatory_present_def split: list.splits)
  then show "has_signifier_typing g" using subjects_nonempty_typing by fastforce
  from assms subj have s: "objects g n (CASHMERE ''signifies'') \<noteq> []"
    by (simp add: mandatory_present_def)
  then show "uses_predicate g (CASHMERE ''signifies'')" by (rule objects_nonempty_uses)
  from assms subj obtain i rest where
    i: "objects g n (CASHMERE ''hasIntentionDescription'') = i # rest"
    and d: "objects g i (CASHMERE ''hasStructuredDescription'') \<noteq> []"
    by (auto simp: mandatory_present_def split: list.splits)
  from i have "objects g n (CASHMERE ''hasIntentionDescription'') \<noteq> []" by simp
  then show "uses_predicate g (CASHMERE ''hasIntentionDescription'')" by (rule objects_nonempty_uses)
  from d show "uses_predicate g (CASHMERE ''hasStructuredDescription'')" by (rule objects_nonempty_uses)
qed

lemma parse_context_without_predicate:
  assumes "\<not> uses_predicate g (CASHMERE ''recommendsContext'')"
  shows "parse_context rt g n =
     Some \<lparr> structured_conditions = [], shacl_shapes = None, nl_description = None \<rparr>"
proof -
  from assms have "objects g n (CASHMERE ''recommendsContext'') = []"
    using objects_nonempty_uses by blast
  then have "\<not> node_truthy (graph_value g n (CASHMERE ''recommendsContext''))"
    by (rule graph_value_None)
  then show ?thesis by (simp add: parse_context_def Let_def)
qed


text \<open>
  Claim C7, as the code has it. Parsing an RDF signifier fails with InvalidRDF whenever the
  \<open>cashmere:Signifier\<close> typing, \<open>cashmere:signifies\<close>, \<open>cashmere:hasIntentionDescription\<close> or
  the description's \<open>cashmere:hasStructuredDescription\<close> literal is absent from the graph, and it
  succeeds only when the four are present; \<open>create_from_rdf\<close> then fails with the same error
  and leaves the store as it was. \<open>cashmere:recommendsContext\<close> is optional: a graph without
  it can parse, and the signifier then has an empty context.
\<close>

theorem parse_rdf_signifier_mandatory_predicates:
  "(\<not> has_signifier_typing g \<or> \<not> uses_predicate g (CASHMERE ''signifies'')
      \<or> \<not> uses_predicate g (CASHMERE ''hasIntentionDescription'')
      \<or> \<not> uses_predicate g (CASHMERE ''hasStructuredDescription'')
      \<or> \<not> mandatory_present g
     \<longrightarrow> parse_graph rt g = Inl InvalidRDF)
   \<and> (parse_graph rt g = Inr s \<longrightarrow>
        mandatory_present g
        \<and> (\<not> uses_predicate g (CASHMERE ''recommendsContext'') \<longrightarrow>
             intent_context s = \<lparr> structured_conditions = [], shacl_shapes = None,
                                   nl_description = None \<rparr>))
   \<and> ((if has_prefix_decl rdf then parses_to rdf else preprocessed_parses_to rdf) = Some g
        \<longrightarrow> parse_rdf_signifier rt rdf = parse_graph rt g
          \<and> (parse_graph rt g = Inl InvalidRDF
               \<longrightarrow> create_from_rdf rt st rdf = (Inl InvalidRDF, st)))"
proof -
  have fail: "parse_graph rt g = Inl InvalidRDF" if "\<not> mandatory_present g"
    using that by (rule parse_graph_fails_without_mandatory)
  have part1: "parse_graph rt g = Inl InvalidRDF"
    if "\<not> has_signifier_typing g \<or> \<not> uses_predicate g (CASHMERE ''signifies'')
      \<or> \<not> uses_predicate g (CASHMERE ''hasIntentionDescription'')
      \<or> \<not> uses_predicate g (CASHMERE ''hasStructuredDescription'')
      \<or> \<not> mandatory_present g"
  proof -
    from that mandatory_present_uses[of g] have "\<not> mandatory_present g" by blast
    then show ?thesis by (rule fail)
  qed
  have part2: "mandatory_present g
        \<and> (\<not> uses_predicate g (CASHMERE ''recommendsContext'') \<longrightarrow>
             intent_context s = \<lparr> structured_conditions = [], shacl_shapes = None,
                                   nl_description = None \<rparr>)"
    if ok: "parse_graph rt g = Inr s"
  proof -
    from parse_graph_InrD[OF ok] obtain n where
      "parse_context rt g n = Some (intent_context s)" by blast
    then have "intent_context s = \<lparr> structured_conditions = [], shacl_shapes = None,
                                   nl_description = None \<rparr>"
      if "\<not> uses_predicate g (CASHMERE ''recommendsContext'')"
      using parse_context_without_predicate[OF that, of rt n] by simp
    with parse_graph_needs_mandatory[OF ok] show ?thesis by blast
  qed
  have part3: "parse_rdf_signifier rt rdf = parse_graph rt g
          \<and> (parse_graph rt g = Inl InvalidRDF
               \<longrightarrow> create_from_rdf rt st rdf = (Inl InvalidRDF, st))"
    if "(if has_prefix_decl rdf then parses_to rdf else preprocessed_parses_to rdf) = Some g"
    using that by (simp add: parse_rdf_signifier_def create_from_rdf_def)
  from part1 part2 part3 show ?thesis by blast
qed

lemma json_loads_raise_blinds:
  "json_loads sample_runtime raise_blinds_json = Some (JObj [(''intent'', JStr ''raise blinds'')])"
  by (simp add: sample_runtime_def)

lemma after_last_hash_raise_blinds:
  "after_last_hash (node_str raise_blinds_node) = ''raise-blinds-signifier''"
  by (simp add: after_last_hash_def node_str_def raise_blinds_node_def)

lemma cashmere_neq:
  "CASHMERE a = CASHMERE b \<longleftrightarrow> a = b" "CASHMERE a \<noteq> RDF_type" "RDF_type \<noteq> CASHMERE a"
  by (simp_all add: CASHMERE_def RDF_type_def)

lemma node_neq: "raise_blinds_node \<noteq> BNode x" "BNode x \<noteq> raise_blinds_node"
  by (simp_all add: raise_blinds_node_def)

lemma node_str_simps:
  "node_str (URIRef u) = u" "node_str (BNode b) = b" "node_str (Literal l) = l"
  by (simp_all add: node_str_def)

lemma raise_blinds_json_nonempty: "raise_blinds_json \<noteq> []"
  by (simp add: raise_blinds_json_def)

lemma parse_graph_without_context:
  "parse_graph sample_runtime graph_without_context = Inr raise_blinds_parsed"
  by (simp add: parse_graph_def graph_without_context_def subjects_def objects_def
      graph_value_def node_truthy_def cashmere_neq node_neq json_loads_raise_blinds
      after_last_hash_raise_blinds parse_context_def dict_get_def Let_def raise_blinds_parsed_def
      node_str_simps raise_blinds_json_nonempty)

theorem parse_without_recommendsContext_counterexample:
  "\<not> uses_predicate graph_without_context (CASHMERE ''recommendsContext'')
   \<and> parse_graph sample_runtime graph_without_context = Inr raise_blinds_parsed
   \<and> parse_rdf_signifier sample_runtime (serialize_turtle graph_without_context)
       = Inr raise_blinds_parsed"
  by (simp add: parse_graph_without_context parse_rdf_signifier_def serialize_turtle_def)
     (simp add: uses_predicate_def graph_without_context_def cashmere_neq)


lemma parse_graph_with_context:
  "parse_graph sample_runtime graph_with_context = Inr raise_blinds_parsed"
  by (simp add: parse_graph_def graph_with_context_def graph_without_context_def subjects_def
      objects_def graph_value_def node_truthy_def cashmere_neq node_neq json_loads_raise_blinds
      after_last_hash_raise_blinds parse_context_def dict_get_def Let_def raise_blinds_parsed_def
      node_str_simps raise_blinds_json_nonempty)

lemma typing_only_no_signifies:
  "\<not> uses_predicate graph_typing_only (CASHMERE ''signifies'')"
  by (simp add: uses_predicate_def graph_typing_only_def cashmere_neq)

text \<open>The graph with all five predicates parses, so the four mandatory ones are present; a
  graph that only types the signifier fails, and \<open>create_from_rdf\<close> leaves the store empty.\<close>

theorem parse_rdf_signifier_mandatory_predicates_witness:
  "mandatory_present graph_with_context
   \<and> parse_graph sample_runtime graph_typing_only = Inl InvalidRDF
   \<and> parse_rdf_signifier sample_runtime (serialize_turtle graph_typing_only) = Inl InvalidRDF
   \<and> create_from_rdf sample_runtime empty_store (serialize_turtle graph_typing_only)
       = (Inl InvalidRDF, empty_store)"
  using parse_rdf_signifier_mandatory_predicates
          [of graph_with_context sample_runtime raise_blinds_parsed
              "serialize_turtle graph_with_context" empty_store]
        parse_rdf_signifier_mandatory_predicates
          [of graph_typing_only sample_runtime raise_blinds_parsed
              "serialize_turtle graph_typing_only" empty_store]
        parse_graph_with_context typing_only_no_signifies
  by (simp add: serialize_turtle_def)

section \<open>Properties of the registry\<close>



















lemma raise_blinds_simps:
  "signifier_id raise_blinds_parsed = ''raise-blinds-signifier''"
  "version raise_blinds_parsed = 1"
  "shacl_shapes (intent_context raise_blinds_parsed) = None"
  "valid_signifier raise_blinds_parsed"
  by (simp_all add: raise_blinds_parsed_def valid_signifier_def)



lemma create_writes:
  assumes "get_json_document st (signifier_id s) = None"
  shows "json_files (snd (create rt st s rdf)) = AList.update (signifier_id s) s (json_files st)"
    and "property_index (snd (create rt st s rdf))
         = add_index_keys (signifier_id s) (get_property_keys s) (property_index st)"
proof -
  define st2 where "st2 = update_property_index (store_json_document st s) s"
  have j2: "json_files st2 = AList.update (signifier_id s) s (json_files st)"
    and p2: "property_index st2
         = add_index_keys (signifier_id s) (get_property_keys s) (property_index st)"
    by (simp_all add: st2_def update_property_index_def store_json_document_def)
  have keep: "json_files st3 = json_files st2 \<and> property_index st3 = property_index st2"
    if "store_rdf_graph st2 sid ver t = Inr st3" for sid ver t st3
    using that by (auto simp: store_rdf_graph_def split: option.splits)
  have "json_files (snd (create rt st s rdf)) = json_files st2
      \<and> property_index (snd (create rt st s rdf)) = property_index st2"
    using assms keep
    by (auto simp: create_def Let_def normalize_signifier_def st2_def[symmetric]
        split: sum.splits)
  with j2 p2 show
    "json_files (snd (create rt st s rdf)) = AList.update (signifier_id s) s (json_files st)"
    "property_index (snd (create rt st s rdf))
         = add_index_keys (signifier_id s) (get_property_keys s) (property_index st)"
    by simp_all
qed

lemma update_writes:
  assumes "get_json_document st (signifier_id s) = Some e"
  shows "json_files (snd (update rt st s nv))
         = AList.update (signifier_id s)
             (if nv then s \<lparr> version := version e + 1 \<rparr> else s) (json_files st)"
    and "property_index (snd (update rt st s nv))
         = add_index_keys (signifier_id s) (get_property_keys s) (property_index st)"
proof -
  define s' where "s' = (if nv then s \<lparr> version := version e + 1 \<rparr> else s)"
  define st2 where "st2 = update_property_index (store_json_document st s') s'"
  have sid: "signifier_id s' = signifier_id s" and keys: "get_property_keys s' = get_property_keys s"
    by (simp_all add: s'_def get_property_keys_def)
  have j2: "json_files st2 = AList.update (signifier_id s) s' (json_files st)"
    and p2: "property_index st2
         = add_index_keys (signifier_id s) (get_property_keys s) (property_index st)"
    by (simp_all add: st2_def update_property_index_def store_json_document_def sid keys)
  have keep: "json_files st3 = json_files st2 \<and> property_index st3 = property_index st2"
    if "store_rdf_graph st2 sid ver t = Inr st3" for sid ver t st3
    using that by (auto simp: store_rdf_graph_def split: option.splits)
  have "json_files (snd (update rt st s nv)) = json_files st2
      \<and> property_index (snd (update rt st s nv)) = property_index st2"
    using assms(1) keep
    by (auto simp: update_def Let_def normalize_signifier_def s'_def[symmetric] st2_def[symmetric]
        split: sum.splits)
  with j2 p2 show
    "json_files (snd (update rt st s nv))
         = AList.update (signifier_id s)
             (if nv then s \<lparr> version := version e + 1 \<rparr> else s) (json_files st)"
    "property_index (snd (update rt st s nv))
         = add_index_keys (signifier_id s) (get_property_keys s) (property_index st)"
    by (simp_all add: s'_def)
qed

lemma raise_blinds_lum_simps:
  "signifier_id raise_blinds_lum = ''raise-blinds-signifier''"
  "get_property_keys raise_blinds_lum
     = [(artifact luminosity_condition, property_affordance luminosity_condition)]"
  "get_property_keys raise_blinds_parsed = []"
  by (simp_all add: raise_blinds_lum_def raise_blinds_parsed_def get_property_keys_def)

lemma after_create_lum:
  "json_files (snd (create rt empty_store raise_blinds_lum None))
     = [(''raise-blinds-signifier'', raise_blinds_lum)]"
  "property_index (snd (create rt empty_store raise_blinds_lum None))
     = [(artifact luminosity_condition, property_affordance luminosity_condition)
          \<mapsto> {''raise-blinds-signifier''}]"
  using create_writes[of empty_store raise_blinds_lum rt None]
  by (simp_all add: get_json_document_def empty_store_def raise_blinds_lum_simps)

text \<open>
  Claim C1 at a failing input. A signifier is created with one structured condition on the
  luminosity pair and then updated (same version) to a signifier without conditions. The
  current version has no (artifact, property) pair, and the index entry of the luminosity pair
  still holds the id: \<open>update\<close> only adds to the index.
\<close>

theorem update_keeps_stale_index_entry:
  "get (run_ops sample_runtime empty_store
          [Create raise_blinds_lum None, Update raise_blinds_parsed False])
       ''raise-blinds-signifier'' = Some raise_blinds_parsed
   \<and> get_property_keys raise_blinds_parsed = []
   \<and> store_find_by_property
        (run_ops sample_runtime empty_store
           [Create raise_blinds_lum None, Update raise_blinds_parsed False])
        (artifact luminosity_condition) (property_affordance luminosity_condition)
      = {''raise-blinds-signifier''}"
proof -
  define st1 where "st1 = snd (create sample_runtime empty_store raise_blinds_lum None)"
  have e: "get_json_document st1 (signifier_id raise_blinds_parsed) = Some raise_blinds_lum"
    by (simp add: st1_def get_json_document_def after_create_lum raise_blinds_simps)
  note u = update_writes[OF e, of sample_runtime False]
  have run: "run_ops sample_runtime empty_store
          [Create raise_blinds_lum None, Update raise_blinds_parsed False]
        = snd (update sample_runtime st1 raise_blinds_parsed False)"
    by (simp add: run_ops_def run_op_def st1_def)
  show ?thesis unfolding run
    using u
    by (simp add: get_def get_json_document_def store_find_by_property_def raise_blinds_simps
        raise_blinds_lum_simps st1_def after_create_lum)
qed





section \<open>Properties of the intent matching stage\<close>






















end
